theory Spec2Isabelle
  imports Complex_Main
begin

section \<open>Tip-Monad: a shallow embedding of the tip bots\<close>

text \<open>
  The repository holds three variants of one Telegram tip bot: the Solana bot
  (\<^verbatim>\<open>bot.js\<close>), the Monad bot with the retry executor, the rate governor and the
  giveaways (\<^verbatim>\<open>part_000\<close>), and an earlier Monad bot without them
  (\<^verbatim>\<open>part_001\<close>). The embedding follows the first two.

  Conventions of the model:
  \<^item> an \<^verbatim>\<open>async\<close> function is a function from the program state to a result and a
    new state; a rejected promise (a thrown exception) is \<open>Inl\<close>, a fulfilled one
    \<open>Inr\<close>;
  \<^item> the chain client, the database and Telegram are outside the program: what
    they answer is given by an environment \<open>env\<close>, one oracle per operation,
    asked with the number of effects the run has performed so far, so that the
    same call may be answered differently each time;
  \<^item> every effect is appended to \<open>trace\<close>, with the answer it got;
  \<^item> amounts are JavaScript numbers in the source; the model computes with exact
    rationals, so rounding of binary floating point is not represented, and
    \<^verbatim>\<open>toFixed\<close> rendering of messages is replaced by a datatype of messages.
\<close>

subsection \<open>Values\<close>

datatype exn = Error string | ReferenceError string | TypeError string

fun message :: "exn \<Rightarrow> string" where
  "message (Error m) = m"
| "message (ReferenceError m) = m"
| "message (TypeError m) = m"

type_synonym amount = rat

record tx_request =
  tx_to :: string
  tx_amount :: amount
  tx_nonce :: "nat option"

record user_wallet =
  uw_privateKey :: string
  uw_publicKey :: string

record claim_wallet =
  privateKey :: string
  publicKey :: string
  fromUserId :: string
  accrued :: amount

record tip_record =
  from_user_id :: string
  to_username :: string
  tip_amount :: amount
  fee_amount :: amount
  transaction_signature :: string

text \<open>The \<^verbatim>\<open>status\<close> object of the \<^verbatim>\<open>/pay\<close> handler.\<close>

record pay_status =
  st_sent :: bool
  st_confirming :: bool
  st_success :: bool
  st_failed :: bool
  st_errorMessage :: string
  st_txHash :: "string option"

record participant =
  p_id :: int
  p_username :: string

record giveaway =
  g_chatId :: int
  g_senderId :: string
  g_senderWallet :: user_wallet
  g_amount :: amount
  g_fee :: amount
  g_participants :: "(int \<times> participant) list"

datatype sol_step = WaitingForAddress | WaitingForAmount

record sol_withdrawal =
  sw_username :: string
  sw_step :: sol_step
  sw_destinationAddress :: "string option"

datatype withdrawal =
    ClaimWithdrawal string claim_wallet
  | FundingWithdrawal user_wallet

datatype notice =
    InvalidAmount
  | NoWalletYet
  | InsufficientBalance amount amount
  | StatusText pay_status
  | PaymentSentSuccessfully amount amount string string
  | FailedToSendPayment string
  | TipInsufficientBalance amount amount amount amount
  | TipCreateWalletFirst
  | ProcessingTip amount amount string
  | TipSentSuccessfully amount amount string string
  | TipFailed string
  | NoParticipants
  | GiveawayWinner string amount nat string
  | FailedToSendPrize string
  | OnlyInGroups
  | GiveawayInvalidFormat
  | GiveawayStarted amount
  | NoTipsToClaim
  | ClaimInsufficientBalance amount
  | GasInsufficientBalance amount amount
  | TransferSuccessful amount string
  | TransferFailed string
  | InvalidAddress
  | WithdrawInsufficientBalance amount
  | WithdrawalSuccessful amount string string
  | WithdrawalFailed string
  | ClaimWalletNotFound
  | FundingWalletNotFound
  | NoFundsAvailable
  | InsufficientForTransfer amount amount
  | ProcessingTransfer amount
  | ProcessingWithdrawal amount string
  | EnterAmount amount
  | EnterValidAmount

datatype event =
    RateLimitedDelay
  | Sleep nat
  | GetBalance string "exn + amount"
  | GetTransactionCount string "exn + nat"
  | SendTransaction string tx_request "exn + string"
  | WaitTransaction string "exn option"
  | GetTransactionReceipt string "exn + bool"
  | EstimateGas string string amount "exn + amount"
  | GetFeeData "exn + amount"
  | CreateRandom user_wallet
  | SaveClaimWallet string claim_wallet "exn option"
  | SaveUserWallet string user_wallet "exn option"
  | InsertInto string tip_record "exn option"
  | SendMessage int notice "exn option"
  | EditMessageText int notice "exn option"
  | DeleteMessage int "exn option"
  | AnswerCallbackQuery "exn option"
  | ConsoleError string
  | ConsoleLog string
  | SetTimer string nat
  | SolGetBalance string "exn + amount"
  | SolGetLatestBlockhash "exn + string"
  | SolSendTransaction string "(string \<times> amount) list" "exn + string"
  | SolConfirmTransaction string "exn + bool"
  | SolGetSignatureStatus string "exn + bool"

subsection \<open>State and environment\<close>

record world =
  trace :: "event list"
  userWallets :: "string \<rightharpoonup> user_wallet"
  claimWallets :: "string \<rightharpoonup> claim_wallet"
  status :: pay_status
  activeGmonadGiveaways :: "(string \<times> giveaway) list"
  withdrawalState :: "int \<rightharpoonup> withdrawal"
  sol_withdrawalState :: "string \<rightharpoonup> sol_withdrawal"

record env =
  e_getBalance :: "nat \<Rightarrow> string \<Rightarrow> exn + amount"
  e_getTransactionCount :: "nat \<Rightarrow> string \<Rightarrow> exn + nat"
  e_sendTransaction :: "nat \<Rightarrow> string \<Rightarrow> tx_request \<Rightarrow> exn + string"
  e_wait :: "nat \<Rightarrow> string \<Rightarrow> exn option"
  e_getTransactionReceipt :: "nat \<Rightarrow> string \<Rightarrow> exn + bool"
  e_estimateGas :: "nat \<Rightarrow> exn + amount"
  e_getFeeData :: "nat \<Rightarrow> exn + amount"
  e_createRandom :: "nat \<Rightarrow> user_wallet"
  e_query :: "nat \<Rightarrow> exn option"
  e_telegram :: "nat \<Rightarrow> exn option"
  e_getLatestBlockhash :: "nat \<Rightarrow> exn + string"
  e_solSendTransaction :: "nat \<Rightarrow> exn + string"
  e_confirmTransaction :: "nat \<Rightarrow> string \<Rightarrow> exn + bool"
  e_getSignatureStatus :: "nat \<Rightarrow> string \<Rightarrow> exn + bool"
  e_random :: "nat \<Rightarrow> nat \<Rightarrow> nat"
  e_isAddress :: "string \<Rightarrow> bool"

type_synonym 'a io = "world \<Rightarrow> (exn + 'a) \<times> world"

definition emit :: "event \<Rightarrow> world \<Rightarrow> world" where
  "emit ev w = w\<lparr>trace := trace w @ [ev]\<rparr>"

definition now :: "world \<Rightarrow> nat" where
  "now w = length (trace w)"

definition return_io :: "'a \<Rightarrow> 'a io" where
  "return_io x w = (Inr x, w)"

definition throw_io :: "exn \<Rightarrow> 'a io" where
  "throw_io e w = (Inl e, w)"

definition bind_io :: "'a io \<Rightarrow> ('a \<Rightarrow> 'b io) \<Rightarrow> 'b io" where
  "bind_io m f w = (case m w of (Inl e, w') \<Rightarrow> (Inl e, w') | (Inr x, w') \<Rightarrow> f x w')"

definition catch_io :: "'a io \<Rightarrow> (exn \<Rightarrow> 'a io) \<Rightarrow> 'a io" where
  "catch_io m h w = (case m w of (Inl e, w') \<Rightarrow> h e w' | (Inr x, w') \<Rightarrow> (Inr x, w'))"

text \<open>An effect whose answer is an optional exception (a call awaited for its effect only).\<close>

definition effect :: "exn option \<Rightarrow> event \<Rightarrow> unit io" where
  "effect r ev w = (case r of None \<Rightarrow> (Inr (), emit ev w) | Some e \<Rightarrow> (Inl e, emit ev w))"

text \<open>An effect that returns a value or throws.\<close>

definition request :: "exn + 'a \<Rightarrow> event \<Rightarrow> 'a io" where
  "request r ev w = (r, emit ev w)"

subsection \<open>Constants of the Monad bot\<close>

definition FEES_WALLET :: string where
  "FEES_WALLET = ''0x0000000000000000000000000000000000000000''"

definition FEE_PERCENTAGE :: amount where
  "FEE_PERCENTAGE = 1 / 10"

definition NETWORK_FEE :: amount where
  "NETWORK_FEE = 5 / 1000000"

subsection \<open>Capabilities: chain client, database, Telegram, console\<close>

definition console_error :: "string \<Rightarrow> unit io" where
  "console_error s w = (Inr (), emit (ConsoleError s) w)"

definition console_log :: "string \<Rightarrow> unit io" where
  "console_log s w = (Inr (), emit (ConsoleLog s) w)"

definition setTimeout :: "nat \<Rightarrow> unit io" where
  "setTimeout ms w = (Inr (), emit (Sleep ms) w)"

definition provider_getBalance :: "env \<Rightarrow> string \<Rightarrow> amount io" where
  "provider_getBalance env address w =
     (let r = e_getBalance env (now w) address in request r (GetBalance address r) w)"

definition provider_getTransactionCount :: "env \<Rightarrow> string \<Rightarrow> nat io" where
  "provider_getTransactionCount env address w =
     (let r = e_getTransactionCount env (now w) address
      in request r (GetTransactionCount address r) w)"

definition wallet_sendTransaction :: "env \<Rightarrow> string \<Rightarrow> tx_request \<Rightarrow> string io" where
  "wallet_sendTransaction env address tx w =
     (let r = e_sendTransaction env (now w) address tx
      in request r (SendTransaction address tx r) w)"

definition transaction_wait :: "env \<Rightarrow> string \<Rightarrow> unit io" where
  "transaction_wait env h w =
     (let r = e_wait env (now w) h in effect r (WaitTransaction h r) w)"

definition provider_getTransactionReceipt :: "env \<Rightarrow> string \<Rightarrow> bool io" where
  "provider_getTransactionReceipt env h w =
     (let r = e_getTransactionReceipt env (now w) h
      in request r (GetTransactionReceipt h r) w)"

definition bot_sendMessage :: "env \<Rightarrow> int \<Rightarrow> notice \<Rightarrow> unit io" where
  "bot_sendMessage env chatId n w =
     (let r = e_telegram env (now w) in effect r (SendMessage chatId n r) w)"

definition bot_editMessageText :: "env \<Rightarrow> int \<Rightarrow> notice \<Rightarrow> unit io" where
  "bot_editMessageText env chatId n w =
     (let r = e_telegram env (now w) in effect r (EditMessageText chatId n r) w)"

definition bot_deleteMessage :: "env \<Rightarrow> int \<Rightarrow> unit io" where
  "bot_deleteMessage env chatId w =
     (let r = e_telegram env (now w) in effect r (DeleteMessage chatId r) w)"

text \<open>
  \<^verbatim>\<open>rateLimitedDelay\<close> as the handlers see it: it returns after its wait and never
  throws. Its clock arithmetic is modelled on its own in the section on the rate
  governor.
\<close>

definition rateLimitedDelay :: "unit io" where
  "rateLimitedDelay w = (Inr (), emit RateLimitedDelay w)"

text \<open>
  \<^verbatim>\<open>saveWallet(userId, wallet, true)\<close>: the upsert of a claim wallet. A failed
  query is logged and swallowed.
\<close>

definition saveWallet :: "env \<Rightarrow> string \<Rightarrow> claim_wallet \<Rightarrow> unit io" where
  "saveWallet env userId wallet w =
     (let r = e_query env (now w); w1 = emit (SaveClaimWallet userId wallet r) w
      in case r of None \<Rightarrow> (Inr (), w1)
         | Some e \<Rightarrow> console_error ''Error saving wallet:'' w1)"

definition saveUserWallet :: "env \<Rightarrow> string \<Rightarrow> user_wallet \<Rightarrow> unit io" where
  "saveUserWallet env userId wallet w =
     (let r = e_query env (now w); w1 = emit (SaveUserWallet userId wallet r) w
      in case r of None \<Rightarrow> (Inr (), w1)
         | Some e \<Rightarrow> console_error ''Error saving wallet:'' w1)"

definition pool_insert :: "env \<Rightarrow> string \<Rightarrow> tip_record \<Rightarrow> unit io" where
  "pool_insert env table row w =
     (let r = e_query env (now w) in effect r (InsertInto table row r) w)"

subsection \<open>The retry transfer executor (\<^verbatim>\<open>sendTransactionWithRetry\<close>)\<close>

fun startsWith :: "string \<Rightarrow> string \<Rightarrow> bool" where
  "startsWith s [] = True"
| "startsWith [] (p # ps) = False"
| "startsWith (c # cs) (p # ps) = (c = p \<and> startsWith cs ps)"

fun str_includes :: "string \<Rightarrow> string \<Rightarrow> bool" where
  "str_includes [] p = (p = [])"
| "str_includes (c # cs) p = (startsWith (c # cs) p \<or> str_includes cs p)"

definition isRetryable :: "exn \<Rightarrow> bool" where
  "isRetryable error =
     (str_includes (message error) ''nonce'' \<or> str_includes (message error) ''priority''
      \<or> str_includes (message error) ''rate'' \<or> str_includes (message error) ''limit'')"

record callbacks =
  onSent :: "(string \<Rightarrow> unit io) option"
  onConfirming :: "(string \<Rightarrow> unit io) option"
  onConfirmed :: "(string \<Rightarrow> unit io) option"

definition no_callbacks :: callbacks where
  "no_callbacks = \<lparr>onSent = None, onConfirming = None, onConfirmed = None\<rparr>"

definition invokeCallback :: "(string \<Rightarrow> unit io) option \<Rightarrow> string \<Rightarrow> unit io" where
  "invokeCallback callback transaction w =
     (case callback of
        None \<Rightarrow> (Inr (), w)
      | Some cb \<Rightarrow>
          (case cb transaction w of
             (Inr u, w') \<Rightarrow> (Inr (), w')
           | (Inl callbackError, w') \<Rightarrow>
               console_error ''Callback error in sendTransactionWithRetry:'' w'))"

text \<open>The body of the \<^verbatim>\<open>try\<close> block of one iteration.\<close>

definition attempt :: "env \<Rightarrow> string \<Rightarrow> callbacks \<Rightarrow> tx_request \<Rightarrow> string io" where
  "attempt env wallet cbs tx =
     bind_io rateLimitedDelay (\<lambda>_.
     bind_io (wallet_sendTransaction env wallet tx) (\<lambda>transaction.
     bind_io (invokeCallback (onSent cbs) transaction) (\<lambda>_.
     bind_io rateLimitedDelay (\<lambda>_.
     bind_io (invokeCallback (onConfirming cbs) transaction) (\<lambda>_.
     bind_io (transaction_wait env transaction) (\<lambda>_.
     bind_io (invokeCallback (onConfirmed cbs) transaction) (\<lambda>_.
     return_io transaction)))))))"

text \<open>The refresh of the nonce in the \<^verbatim>\<open>catch\<close> block, before the next iteration.\<close>

definition refreshNonce :: "env \<Rightarrow> string \<Rightarrow> nat io" where
  "refreshNonce env wallet =
     bind_io (console_log ''Error detected, retrying...'') (\<lambda>_.
     bind_io (setTimeout 2000) (\<lambda>_.
     bind_io rateLimitedDelay (\<lambda>_.
     provider_getTransactionCount env wallet)))"

text \<open>
  The \<^verbatim>\<open>for\<close> loop from iteration \<open>i\<close>. A loop that ends without returning
  (only when \<open>maxRetries = 0\<close>) makes the function return \<^verbatim>\<open>undefined\<close>: \<open>None\<close>.
\<close>

function retryLoop ::
  "env \<Rightarrow> string \<Rightarrow> callbacks \<Rightarrow> nat \<Rightarrow> nat \<Rightarrow> tx_request \<Rightarrow> string option io" where
  "retryLoop env wallet cbs maxRetries i tx w =
     (if i < maxRetries then
        (case attempt env wallet cbs tx w of
           (Inr transaction, w1) \<Rightarrow> (Inr (Some transaction), w1)
         | (Inl error, w1) \<Rightarrow>
             if i = maxRetries - 1 then (Inl error, w1)
             else if isRetryable error then
               (case refreshNonce env wallet w1 of
                  (Inl e, w2) \<Rightarrow> (Inl e, w2)
                | (Inr newNonce, w2) \<Rightarrow>
                    retryLoop env wallet cbs maxRetries (i + 1)
                      (tx\<lparr>tx_nonce := Some newNonce\<rparr>) w2)
             else (Inl error, w1))
      else (Inr None, w))"
  by pat_completeness auto
termination
  by (relation "measure (\<lambda>(env, wallet, cbs, maxRetries, i, tx, w). maxRetries - i)") auto

declare retryLoop.simps [simp del]

definition sendTransactionWithRetry ::
  "env \<Rightarrow> string \<Rightarrow> tx_request \<Rightarrow> nat \<Rightarrow> callbacks \<Rightarrow> string option io" where
  "sendTransactionWithRetry env wallet tx maxRetries cbs =
     retryLoop env wallet cbs maxRetries 0 tx"

subsection \<open>Balance query (\<^verbatim>\<open>getWalletBalance\<close>, Monad bot)\<close>

definition getWalletBalance :: "env \<Rightarrow> string \<Rightarrow> amount io" where
  "getWalletBalance env address =
     catch_io
       (bind_io rateLimitedDelay (\<lambda>_. provider_getBalance env address))
       (\<lambda>error. bind_io (console_error ''Error getting balance:'') (\<lambda>_. return_io 0))"

text \<open>
  \<^verbatim>\<open>checkTransactionStatus(txHash, maxRetries = 3)\<close> of the Monad bot. The oracle
  answers \<open>Inr True\<close> for a receipt with status 1. The pause is inside the
  \<^verbatim>\<open>try\<close>, so a failed query goes to the next iteration without it. No handler of
  the Monad bot calls this function.
\<close>

function checkTransactionStatus :: "env \<Rightarrow> string \<Rightarrow> nat \<Rightarrow> nat \<Rightarrow> bool io" where
  "checkTransactionStatus env txHash maxRetries i w =
     (if i < maxRetries then
        (case provider_getTransactionReceipt env txHash w of
           (Inr True, w1) \<Rightarrow> (Inr True, w1)
         | (Inr False, w1) \<Rightarrow>
             checkTransactionStatus env txHash maxRetries (i + 1) (emit (Sleep 2000) w1)
         | (Inl error, w1) \<Rightarrow>
             checkTransactionStatus env txHash maxRetries (i + 1)
               (emit (ConsoleError ''Error checking transaction status'') w1))
      else (Inr False, w))"
  by pat_completeness auto
termination
  by (relation "measure (\<lambda>(env, txHash, maxRetries, i, w). maxRetries - i)") auto

declare checkTransactionStatus.simps [simp del]

subsection \<open>The \<^verbatim>\<open>/pay\<close> handler (Monad bot)\<close>

text \<open>
  Resolve-or-create of the recipient's claim wallet: the first statements of the
  \<^verbatim>\<open>try\<close> block. The same statements open the payout of both giveaways.
\<close>

definition resolveClaimWallet :: "env \<Rightarrow> string \<Rightarrow> string \<Rightarrow> claim_wallet io" where
  "resolveClaimWallet env userId recipientUsername w =
     (case claimWallets w recipientUsername of
        Some recipientWallet \<Rightarrow> (Inr recipientWallet, w)
      | None \<Rightarrow>
          let wallet = e_createRandom env (now w);
              w1 = emit (CreateRandom wallet) w;
              recipientWallet = \<lparr>privateKey = uw_privateKey wallet,
                 publicKey = uw_publicKey wallet, fromUserId = userId, accrued = 0\<rparr>;
              w2 = w1\<lparr>claimWallets := (claimWallets w1)(recipientUsername \<mapsto> recipientWallet)\<rparr>
          in bind_io (saveWallet env recipientUsername recipientWallet)
               (\<lambda>_. return_io recipientWallet) w2)"

definition initial_status :: pay_status where
  "initial_status = \<lparr>st_sent = False, st_confirming = False, st_success = False, st_failed = False,
     st_errorMessage = [], st_txHash = None\<rparr>"

definition updateStatusMessage :: "env \<Rightarrow> int \<Rightarrow> unit io" where
  "updateStatusMessage env chatId w =
     catch_io (bot_editMessageText env chatId (StatusText (status w)))
       (\<lambda>statusError.
          if str_includes (message statusError) ''message is not modified'' then return_io ()
          else console_error ''Error updating status message:'') w"

definition setStatus :: "env \<Rightarrow> int \<Rightarrow> (pay_status \<Rightarrow> pay_status) \<Rightarrow> unit io" where
  "setStatus env chatId changes w =
     updateStatusMessage env chatId (w\<lparr>status := changes (status w)\<rparr>)"

definition pay_callbacks :: "env \<Rightarrow> int \<Rightarrow> callbacks" where
  "pay_callbacks env chatId =
     \<lparr>onSent = Some (\<lambda>txResponse. setStatus env chatId
          (\<lambda>s. s\<lparr>st_sent := True, st_confirming := True, st_txHash := Some txResponse\<rparr>)),
      onConfirming = Some (\<lambda>txResponse. setStatus env chatId (\<lambda>s. s\<lparr>st_confirming := True\<rparr>)),
      onConfirmed = Some (\<lambda>txResponse. setStatus env chatId
          (\<lambda>s. s\<lparr>st_confirming := False, st_success := True, st_txHash := Some txResponse\<rparr>))\<rparr>"

text \<open>\<^verbatim>\<open>transaction.hash\<close>: a \<^verbatim>\<open>TypeError\<close> when the executor returned \<^verbatim>\<open>undefined\<close>.\<close>

definition hash_of :: "string option \<Rightarrow> string io" where
  "hash_of transaction =
     (case transaction of
        None \<Rightarrow> throw_io (TypeError ''Cannot read properties of undefined'')
      | Some h \<Rightarrow> return_io h)"

text \<open>
  The accrual update, its save, the record and the success message: the end of the
  \<^verbatim>\<open>try\<close> block. \<open>recipientWallet\<close> is the object held by \<open>claimWallets\<close>, so
  the assignment to its \<^verbatim>\<open>amount\<close> is an update of the map.
\<close>

definition pay_bookkeeping ::
  "env \<Rightarrow> int \<Rightarrow> string \<Rightarrow> string \<Rightarrow> amount \<Rightarrow> amount \<Rightarrow> claim_wallet \<Rightarrow> string option
     \<Rightarrow> unit io" where
  "pay_bookkeeping env chatId userId recipientUsername amount fee recipientWallet transaction w =
     (let updated = recipientWallet\<lparr>accrued := accrued recipientWallet + amount\<rparr>;
          w1 = w\<lparr>claimWallets := (claimWallets w)(recipientUsername \<mapsto> updated)\<rparr>
      in bind_io (saveWallet env recipientUsername updated) (\<lambda>_.
         bind_io (hash_of transaction) (\<lambda>h.
         bind_io (pool_insert env ''payments''
                    \<lparr>from_user_id = userId, to_username = recipientUsername,
                     tip_amount = amount, fee_amount = fee, transaction_signature = h\<rparr>) (\<lambda>_.
         bot_sendMessage env chatId
           (PaymentSentSuccessfully amount fee recipientUsername h)))) w1)"

text \<open>From the fresh nonce of the fee transfer to the end of the \<^verbatim>\<open>try\<close> block.\<close>

definition pay_after_principal ::
  "env \<Rightarrow> int \<Rightarrow> string \<Rightarrow> string \<Rightarrow> amount \<Rightarrow> amount \<Rightarrow> string \<Rightarrow> claim_wallet
     \<Rightarrow> string option \<Rightarrow> unit io" where
  "pay_after_principal env chatId userId recipientUsername amount fee sender recipientWallet
       transaction =
     bind_io rateLimitedDelay (\<lambda>_.
     bind_io (provider_getTransactionCount env sender) (\<lambda>feeNonce.
     bind_io (sendTransactionWithRetry env sender
                \<lparr>tx_to = FEES_WALLET, tx_amount = fee, tx_nonce = Some feeNonce\<rparr> 3
                no_callbacks) (\<lambda>feeTransaction.
     pay_bookkeeping env chatId userId recipientUsername amount fee recipientWallet
       transaction)))"

text \<open>From the first nonce query to the end of the \<^verbatim>\<open>try\<close> block.\<close>

definition pay_transfers ::
  "env \<Rightarrow> int \<Rightarrow> string \<Rightarrow> string \<Rightarrow> amount \<Rightarrow> amount \<Rightarrow> string \<Rightarrow> claim_wallet
     \<Rightarrow> unit io" where
  "pay_transfers env chatId userId recipientUsername amount fee sender recipientWallet =
     bind_io rateLimitedDelay (\<lambda>_.
     bind_io (provider_getTransactionCount env sender) (\<lambda>nonce.
     bind_io (sendTransactionWithRetry env sender
                \<lparr>tx_to = publicKey recipientWallet, tx_amount = amount, tx_nonce = Some nonce\<rparr> 3
                (pay_callbacks env chatId)) (\<lambda>transaction.
     pay_after_principal env chatId userId recipientUsername amount fee sender recipientWallet
       transaction)))"

text \<open>
  The start of the \<^verbatim>\<open>try\<close> block, up to the assignment of \<^verbatim>\<open>setStatus\<close>: the claim
  wallet, the \<^verbatim>\<open>status\<close> object and the status message.
\<close>

definition pay_prepare :: "env \<Rightarrow> int \<Rightarrow> string \<Rightarrow> string \<Rightarrow> claim_wallet io" where
  "pay_prepare env chatId userId recipientUsername =
     bind_io (resolveClaimWallet env userId recipientUsername) (\<lambda>recipientWallet.
     bind_io (\<lambda>w. (Inr (), w\<lparr>status := initial_status\<rparr>)) (\<lambda>_.
     bind_io (bot_sendMessage env chatId (StatusText initial_status)) (\<lambda>_.
     return_io recipientWallet)))"

text \<open>
  The \<^verbatim>\<open>catch\<close> block. \<^verbatim>\<open>status\<close> is declared with \<^verbatim>\<open>const\<close> inside the \<^verbatim>\<open>try\<close>
  block and is not in scope here: once \<^verbatim>\<open>setStatus\<close> has been assigned, building
  its argument evaluates \<^verbatim>\<open>status?.sent\<close> and raises a \<^verbatim>\<open>ReferenceError\<close>, which
  leaves the handler.
\<close>

definition pay_catch :: "env \<Rightarrow> int \<Rightarrow> bool \<Rightarrow> exn \<Rightarrow> unit io" where
  "pay_catch env chatId setStatusAssigned error =
     bind_io (console_error ''Tip error:'') (\<lambda>_.
       if setStatusAssigned then throw_io (ReferenceError ''status is not defined'')
       else bot_sendMessage env chatId (FailedToSendPayment (message error)))"

definition pay_settle ::
  "env \<Rightarrow> int \<Rightarrow> string \<Rightarrow> string \<Rightarrow> amount \<Rightarrow> amount \<Rightarrow> user_wallet \<Rightarrow> unit io" where
  "pay_settle env chatId userId recipientUsername amount fee userWallet w =
     (case pay_prepare env chatId userId recipientUsername w of
        (Inl error, w1) \<Rightarrow> pay_catch env chatId False error w1
      | (Inr recipientWallet, w1) \<Rightarrow>
          catch_io
            (pay_transfers env chatId userId recipientUsername amount fee
               (uw_publicKey userWallet) recipientWallet)
            (pay_catch env chatId True) w1)"

text \<open>
  The handler. \<open>parsed\<close> is \<^verbatim>\<open>parseFloat(match[2])\<close>, \<open>None\<close> for \<^verbatim>\<open>NaN\<close>. The
  sender's address is the stored \<^verbatim>\<open>publicKey\<close> of the funding wallet.
\<close>

definition pay_handler :: "env \<Rightarrow> int \<Rightarrow> string \<Rightarrow> string \<Rightarrow> amount option \<Rightarrow> unit io" where
  "pay_handler env chatId userId recipientUsername parsed w =
     (case parsed of
        None \<Rightarrow> bot_sendMessage env chatId InvalidAmount w
      | Some amount \<Rightarrow>
          if amount \<le> 0 then bot_sendMessage env chatId InvalidAmount w
          else
            (case userWallets w userId of
               None \<Rightarrow> bot_sendMessage env chatId NoWalletYet w
             | Some userWallet \<Rightarrow>
                 bind_io (getWalletBalance env (uw_publicKey userWallet)) (\<lambda>balance.
                   let fee = amount * FEE_PERCENTAGE;
                       totalRequired = amount + fee + NETWORK_FEE
                   in if balance < totalRequired
                      then bot_sendMessage env chatId (InsufficientBalance totalRequired balance)
                      else pay_settle env chatId userId recipientUsername amount fee userWallet)
                   w))"

subsection \<open>Transfer-all and withdrawal (Monad bot)\<close>

definition provider_estimateGas :: "env \<Rightarrow> string \<Rightarrow> string \<Rightarrow> amount \<Rightarrow> amount io" where
  "provider_estimateGas env sender dest v w =
     (let r = e_estimateGas env (now w) in request r (EstimateGas sender dest v r) w)"

definition provider_getFeeData :: "env \<Rightarrow> amount io" where
  "provider_getFeeData env w =
     (let r = e_getFeeData env (now w) in request r (GetFeeData r) w)"

text \<open>Create-or-get of the funding wallet in the \<^verbatim>\<open>transfer_all_\<close> branch.\<close>

definition resolveUserWallet :: "env \<Rightarrow> string \<Rightarrow> user_wallet io" where
  "resolveUserWallet env userId w =
     (case userWallets w userId of
        Some userWallet \<Rightarrow> (Inr userWallet, w)
      | None \<Rightarrow>
          let userWallet = e_createRandom env (now w);
              w1 = emit (CreateRandom userWallet) w;
              w2 = w1\<lparr>userWallets := (userWallets w1)(userId \<mapsto> userWallet)\<rparr>
          in bind_io (saveUserWallet env userId userWallet) (\<lambda>_. return_io userWallet) w2)"

text \<open>
  The gas estimate, the amount left after gas and a buffer of 0.00001, and the
  transfer: the statements shared by the \<^verbatim>\<open>try\<close> blocks of transfer-all and of both
  withdrawals. \<open>refuse\<close> and \<open>done\<close> are what each caller does when the amount is
  not positive and after the confirmation.
\<close>

definition drainTo ::
  "env \<Rightarrow> string \<Rightarrow> string \<Rightarrow> amount \<Rightarrow> (amount \<Rightarrow> unit io) \<Rightarrow> (amount \<Rightarrow> string \<Rightarrow> unit io)
     \<Rightarrow> unit io" where
  "drainTo env sender dest balance refuse done =
     bind_io rateLimitedDelay (\<lambda>_.
     bind_io (provider_estimateGas env sender dest balance) (\<lambda>gasEstimate.
     bind_io rateLimitedDelay (\<lambda>_.
     bind_io (provider_getFeeData env) (\<lambda>gasPrice.
       let gasCost = gasEstimate * gasPrice;
           amountToSend = balance - gasCost - 1 / 100000
       in if amountToSend \<le> 0 then refuse gasCost
          else
            bind_io (wallet_sendTransaction env sender
                       \<lparr>tx_to = dest, tx_amount = amountToSend, tx_nonce = None\<rparr>) (\<lambda>transaction.
            bind_io (transaction_wait env transaction) (\<lambda>_.
            done amountToSend transaction))))))"

text \<open>\<^verbatim>\<open>claimWallet.amount = 0\<close> and its save; the object is the one held by \<open>claimWallets\<close>.\<close>

definition resetAccrual :: "env \<Rightarrow> string \<Rightarrow> claim_wallet \<Rightarrow> unit io" where
  "resetAccrual env username claimWallet w =
     (let updated = claimWallet\<lparr>accrued := 0\<rparr>
      in saveWallet env username updated
           (w\<lparr>claimWallets := (claimWallets w)(username \<mapsto> updated)\<rparr>))"

definition transfer_all_handler :: "env \<Rightarrow> int \<Rightarrow> string \<Rightarrow> string \<Rightarrow> unit io" where
  "transfer_all_handler env chatId userId username w =
     (case claimWallets w username of
        None \<Rightarrow> bot_sendMessage env chatId NoTipsToClaim w
      | Some claimWallet \<Rightarrow>
          bind_io (getWalletBalance env (publicKey claimWallet)) (\<lambda>balance.
            if balance \<le> NETWORK_FEE
            then bot_sendMessage env chatId (ClaimInsufficientBalance balance)
            else
              bind_io (resolveUserWallet env userId) (\<lambda>userWallet.
                catch_io
                  (drainTo env (publicKey claimWallet) (uw_publicKey userWallet) balance
                     (\<lambda>gasCost. bot_sendMessage env chatId (GasInsufficientBalance balance gasCost))
                     (\<lambda>amountToSend transaction.
                        bind_io (resetAccrual env username claimWallet) (\<lambda>_.
                        bot_sendMessage env chatId (TransferSuccessful amountToSend transaction))))
                  (\<lambda>error.
                     bind_io (console_error ''Transfer error:'') (\<lambda>_.
                     bot_sendMessage env chatId (TransferFailed (message error)))))) w)"

definition deleteWithdrawalState :: "int \<Rightarrow> unit io" where
  "deleteWithdrawalState userId w =
     (Inr (), w\<lparr>withdrawalState := (withdrawalState w)(userId := None)\<rparr>)"

text \<open>
  The message listener that takes the destination address of a withdrawal. \<open>text\<close>
  is \<^verbatim>\<open>msg.text\<close>, \<open>None\<close> when the message has no text.
\<close>

definition withdrawal_listener :: "env \<Rightarrow> int \<Rightarrow> int \<Rightarrow> string option \<Rightarrow> unit io" where
  "withdrawal_listener env chatId userId text w =
     (case withdrawalState w userId of
        None \<Rightarrow> (Inr (), w)
      | Some state \<Rightarrow>
          (case text of
             None \<Rightarrow> bot_sendMessage env chatId InvalidAddress w
           | Some t \<Rightarrow>
               if t \<noteq> [] \<and> startsWith t ''/'' then (Inr (), w)
               else if \<not> e_isAddress env t then bot_sendMessage env chatId InvalidAddress w
               else
                 catch_io
                   (case state of
                      ClaimWithdrawal username claimWallet \<Rightarrow>
                        bind_io (getWalletBalance env (publicKey claimWallet)) (\<lambda>balance.
                          if balance \<le> 1 / 10000
                          then bind_io (bot_sendMessage env chatId
                                          (WithdrawInsufficientBalance balance))
                                 (\<lambda>_. deleteWithdrawalState userId)
                          else
                            drainTo env (publicKey claimWallet) t balance
                              (\<lambda>gasCost.
                                 bind_io (bot_sendMessage env chatId
                                            (GasInsufficientBalance balance gasCost))
                                   (\<lambda>_. deleteWithdrawalState userId))
                              (\<lambda>amountToSend transaction.
                                 bind_io (resetAccrual env username claimWallet) (\<lambda>_.
                                 bind_io (bot_sendMessage env chatId
                                            (WithdrawalSuccessful amountToSend t transaction))
                                   (\<lambda>_. deleteWithdrawalState userId))))
                    | FundingWithdrawal userWallet \<Rightarrow>
                        bind_io (getWalletBalance env (uw_publicKey userWallet)) (\<lambda>balance.
                          if balance \<le> 1 / 10000
                          then bind_io (bot_sendMessage env chatId
                                          (WithdrawInsufficientBalance balance))
                                 (\<lambda>_. deleteWithdrawalState userId)
                          else
                            drainTo env (uw_publicKey userWallet) t balance
                              (\<lambda>gasCost.
                                 bind_io (bot_sendMessage env chatId
                                            (GasInsufficientBalance balance gasCost))
                                   (\<lambda>_. deleteWithdrawalState userId))
                              (\<lambda>amountToSend transaction.
                                 bind_io (bot_sendMessage env chatId
                                            (WithdrawalSuccessful amountToSend t transaction))
                                   (\<lambda>_. deleteWithdrawalState userId))))
                   (\<lambda>error.
                      bind_io (console_error ''Withdrawal error:'') (\<lambda>_.
                      bind_io (bot_sendMessage env chatId (WithdrawalFailed (message error)))
                        (\<lambda>_. deleteWithdrawalState userId))) w))"

subsection \<open>The \<^verbatim>\<open>/gmonad\<close> giveaway (Monad bot)\<close>

text \<open>
  \<open>activeGmonadGiveaways\<close> is a JavaScript \<^verbatim>\<open>Map\<close>, iterated in insertion order: an
  association list with at most one entry per key.
\<close>

fun registry_set :: "string \<Rightarrow> giveaway \<Rightarrow> (string \<times> giveaway) list \<Rightarrow> (string \<times> giveaway) list" where
  "registry_set k g [] = [(k, g)]"
| "registry_set k g ((k', g') # rest) =
     (if k' = k then (k', g) # rest else (k', g') # registry_set k g rest)"

definition registry_delete :: "string \<Rightarrow> (string \<times> giveaway) list \<Rightarrow> (string \<times> giveaway) list" where
  "registry_delete k gs = filter (\<lambda>kv. fst kv \<noteq> k) gs"

text \<open>
  \<^verbatim>\<open>toLowerCase\<close> and \<^verbatim>\<open>trim\<close>, on ASCII: the letters A to Z, and the white space
  characters space, tab, line feed, vertical tab, form feed and carriage return.
\<close>

definition lower_char :: "char \<Rightarrow> char" where
  "lower_char c =
     (let n = (of_char c :: nat) in if 65 \<le> n \<and> n \<le> 90 then char_of (n + 32) else c)"

definition toLowerCase :: "string \<Rightarrow> string" where
  "toLowerCase s = map lower_char s"

definition is_space :: "char \<Rightarrow> bool" where
  "is_space c = ((of_char c :: nat) = 32 \<or> (9 \<le> (of_char c :: nat) \<and> (of_char c :: nat) \<le> 13))"

definition trim :: "string \<Rightarrow> string" where
  "trim s = rev (dropWhile is_space (rev (dropWhile is_space s)))"

text \<open>
  The command handler. \<open>matched\<close> is \<^verbatim>\<open>match[1]\<close> after \<^verbatim>\<open>parseFloat\<close>: \<open>None\<close>
  when the group did not match, \<open>Some None\<close> for \<^verbatim>\<open>NaN\<close>. \<open>giveawayKey\<close> stands for
  the chat id joined to the clock reading. The timer set here runs
  \<open>gmonad_timeout\<close> 60 seconds later.
\<close>

definition gmonad_handler ::
  "env \<Rightarrow> int \<Rightarrow> string \<Rightarrow> bool \<Rightarrow> amount option option \<Rightarrow> string \<Rightarrow> unit io" where
  "gmonad_handler env chatId userId isGroup matched giveawayKey w =
     (if \<not> isGroup then bot_sendMessage env chatId OnlyInGroups w
      else
        (case matched of
           None \<Rightarrow> bot_sendMessage env chatId GiveawayInvalidFormat w
         | Some None \<Rightarrow> bot_sendMessage env chatId InvalidAmount w
         | Some (Some amount) \<Rightarrow>
             if amount \<le> 0 then bot_sendMessage env chatId InvalidAmount w
             else
               (case userWallets w userId of
                  None \<Rightarrow> bot_sendMessage env chatId NoWalletYet w
                | Some userWallet \<Rightarrow>
                    bind_io (getWalletBalance env (uw_publicKey userWallet)) (\<lambda>balance.
                      let fee = amount * FEE_PERCENTAGE;
                          totalRequired = amount + fee + NETWORK_FEE
                      in if balance < totalRequired
                         then bot_sendMessage env chatId (InsufficientBalance totalRequired balance)
                         else (\<lambda>w1.
                           bot_sendMessage env chatId (GiveawayStarted amount)
                             (emit (SetTimer giveawayKey 60000)
                                (w1\<lparr>activeGmonadGiveaways :=
                                      registry_set giveawayKey
                                        \<lparr>g_chatId = chatId, g_senderId = userId,
                                         g_senderWallet = userWallet, g_amount = amount,
                                         g_fee = fee, g_participants = []\<rparr>
                                        (activeGmonadGiveaways w1)\<rparr>)))) w)))"

text \<open>
  The entry listener adds the sender of a trigger message to the first giveaway of
  the chat, in the order of the registry, unless already entered, and stops there.
\<close>

fun enterFirst ::
  "int \<Rightarrow> int \<Rightarrow> string \<Rightarrow> (string \<times> giveaway) list \<Rightarrow> (string \<times> giveaway) list" where
  "enterFirst chatId userId username [] = []"
| "enterFirst chatId userId username ((k, g) # rest) =
     (if g_chatId g = chatId then
        (if map_of (g_participants g) userId = None
         then (k, g\<lparr>g_participants := g_participants g
                      @ [(userId, \<lparr>p_id = userId, p_username = username\<rparr>)]\<rparr>) # rest
         else (k, g) # rest)
      else (k, g) # enterFirst chatId userId username rest)"

definition gmonad_listener :: "int \<Rightarrow> string option \<Rightarrow> int \<Rightarrow> string option \<Rightarrow> unit io" where
  "gmonad_listener chatId msgText userId username w =
     (case (msgText, username) of
        (Some raw, Some name) \<Rightarrow>
          (let t = trim (toLowerCase raw)
           in if t = [] \<or> name = [] then (Inr (), w)
              else if t = ''gmonad'' \<or> t = ''gm'' \<or> t = ''gm monad'' then
                (let gs = enterFirst chatId userId name (activeGmonadGiveaways w);
                     w1 = w\<lparr>activeGmonadGiveaways := gs\<rparr>
                 in if gs = activeGmonadGiveaways w then (Inr (), w1)
                    else console_log ''User entered giveaway'' w1)
              else (Inr (), w))
      | _ \<Rightarrow> (Inr (), w))"

text \<open>The \<^verbatim>\<open>try\<close> block of \<^verbatim>\<open>closeGmonadGiveaway\<close>: the payout to the winner.\<close>

definition gmonad_payout :: "env \<Rightarrow> giveaway \<Rightarrow> participant \<Rightarrow> nat \<Rightarrow> unit io" where
  "gmonad_payout env g winner count =
     (let sender = uw_publicKey (g_senderWallet g);
          recipientUsername = toLowerCase (p_username winner)
      in bind_io (resolveClaimWallet env (g_senderId g) recipientUsername) (\<lambda>recipientWallet.
         bind_io rateLimitedDelay (\<lambda>_.
         bind_io (provider_getTransactionCount env sender) (\<lambda>nonce.
         bind_io (sendTransactionWithRetry env sender
                    \<lparr>tx_to = publicKey recipientWallet, tx_amount = g_amount g,
                     tx_nonce = Some nonce\<rparr> 3 no_callbacks) (\<lambda>transaction.
         bind_io rateLimitedDelay (\<lambda>_.
         bind_io (provider_getTransactionCount env sender) (\<lambda>feeNonce.
         bind_io (sendTransactionWithRetry env sender
                    \<lparr>tx_to = FEES_WALLET, tx_amount = g_fee g, tx_nonce = Some feeNonce\<rparr> 3
                    no_callbacks) (\<lambda>feeTransaction.
         bind_io (\<lambda>w.
             let updated = recipientWallet\<lparr>accrued := accrued recipientWallet + g_amount g\<rparr>
             in saveWallet env recipientUsername updated
                  (w\<lparr>claimWallets := (claimWallets w)(recipientUsername \<mapsto> updated)\<rparr>)) (\<lambda>_.
         bind_io (hash_of transaction) (\<lambda>h.
         bind_io (pool_insert env ''tips''
                    \<lparr>from_user_id = g_senderId g, to_username = recipientUsername,
                     tip_amount = g_amount g, fee_amount = g_fee g,
                     transaction_signature = h\<rparr>) (\<lambda>_.
         bot_sendMessage env (g_chatId g)
           (GiveawayWinner (p_username winner) (g_amount g) count h))))))))))))"

text \<open>
  \<^verbatim>\<open>Math.random()\<close> is in [0, 1), so the index drawn is below the number of
  participants: the oracle's answer is reduced modulo that number.
\<close>

definition closeGmonadGiveaway :: "env \<Rightarrow> string \<Rightarrow> unit io" where
  "closeGmonadGiveaway env giveawayKey w =
     (case map_of (activeGmonadGiveaways w) giveawayKey of
        None \<Rightarrow> (Inr (), w)
      | Some g \<Rightarrow>
          let participants = map snd (g_participants g)
          in if length participants = 0 then
               bind_io (bot_sendMessage env (g_chatId g) NoParticipants) (\<lambda>_ w1.
                 (Inr (), w1\<lparr>activeGmonadGiveaways :=
                                registry_delete giveawayKey (activeGmonadGiveaways w1)\<rparr>)) w
             else
               let winner = participants !
                     (e_random env (now w) (length participants) mod length participants)
               in bind_io (console_log ''GM giveaway winner'') (\<lambda>_.
                  bind_io (catch_io (gmonad_payout env g winner (length participants))
                     (\<lambda>error.
                        bind_io (console_error ''GM giveaway error:'') (\<lambda>_.
                        bot_sendMessage env (g_chatId g) (FailedToSendPrize (message error)))))
                    (\<lambda>_ w1.
                       (Inr (), w1\<lparr>activeGmonadGiveaways :=
                                      registry_delete giveawayKey (activeGmonadGiveaways w1)\<rparr>))) w)"

text \<open>The timer callback set by the command handler.\<close>

definition gmonad_timeout :: "env \<Rightarrow> int \<Rightarrow> string \<Rightarrow> unit io" where
  "gmonad_timeout env chatId giveawayKey w =
     (case map_of (activeGmonadGiveaways w) giveawayKey of
        None \<Rightarrow> (Inr (), w)
      | Some g \<Rightarrow>
          if length (g_participants g) > 0 then closeGmonadGiveaway env giveawayKey w
          else bot_sendMessage env chatId NoParticipants
                 (w\<lparr>activeGmonadGiveaways :=
                      registry_delete giveawayKey (activeGmonadGiveaways w)\<rparr>))"

subsection \<open>The Solana bot (\<^verbatim>\<open>bot.js\<close>)\<close>

definition SOL_FEES_WALLET :: string where
  "SOL_FEES_WALLET = ''DB3NZgGPsANwp5RBBMEK2A9ehWeN41QCELRt8WYyL8d8''"

definition connection_getBalance :: "env \<Rightarrow> string \<Rightarrow> amount io" where
  "connection_getBalance env address w =
     (let r = e_getBalance env (now w) address in request r (SolGetBalance address r) w)"

definition sol_getWalletBalance :: "env \<Rightarrow> string \<Rightarrow> amount io" where
  "sol_getWalletBalance env address =
     catch_io (connection_getBalance env address)
       (\<lambda>error. bind_io (console_error ''Error getting balance:'') (\<lambda>_. return_io 0))"

definition connection_getLatestBlockhash :: "env \<Rightarrow> string io" where
  "connection_getLatestBlockhash env w =
     (let r = e_getLatestBlockhash env (now w) in request r (SolGetLatestBlockhash r) w)"

text \<open>A transaction is the list of its transfer instructions: destination and amount.\<close>

definition connection_sendTransaction ::
  "env \<Rightarrow> string \<Rightarrow> (string \<times> amount) list \<Rightarrow> string io" where
  "connection_sendTransaction env sender transfers w =
     (let r = e_solSendTransaction env (now w)
      in request r (SolSendTransaction sender transfers r) w)"

text \<open>
  \<^verbatim>\<open>confirmTransaction\<close> raced against a 30 second timer: \<open>Inl\<close> when the call or the
  timer rejects, \<open>Inr True\<close> when the confirmation carries an error.
\<close>

definition connection_confirmTransaction :: "env \<Rightarrow> string \<Rightarrow> bool io" where
  "connection_confirmTransaction env signature w =
     (let r = e_confirmTransaction env (now w) signature
      in request r (SolConfirmTransaction signature r) w)"

definition connection_getSignatureStatus :: "env \<Rightarrow> string \<Rightarrow> bool io" where
  "connection_getSignatureStatus env signature w =
     (let r = e_getSignatureStatus env (now w) signature
      in request r (SolGetSignatureStatus signature r) w)"

text \<open>
  \<^verbatim>\<open>checkTransactionStatus(connection, signature, maxRetries = 3)\<close>: the oracle answers
  \<open>Inr True\<close> for the status confirmed or finalized.
\<close>

function sol_checkTransactionStatus :: "env \<Rightarrow> string \<Rightarrow> nat \<Rightarrow> nat \<Rightarrow> bool io" where
  "sol_checkTransactionStatus env signature maxRetries i w =
     (if i < maxRetries then
        (case connection_getSignatureStatus env signature w of
           (Inr True, w1) \<Rightarrow> (Inr True, w1)
         | (Inr False, w1) \<Rightarrow>
             sol_checkTransactionStatus env signature maxRetries (i + 1) (emit (Sleep 2000) w1)
         | (Inl error, w1) \<Rightarrow>
             sol_checkTransactionStatus env signature maxRetries (i + 1)
               (emit (ConsoleError ''Error checking transaction status'') w1))
      else (Inr False, w))"
  by pat_completeness auto
termination
  by (relation "measure (\<lambda>(env, signature, maxRetries, i, w). maxRetries - i)") auto

declare sol_checkTransactionStatus.simps [simp del]

text \<open>
  The inner \<^verbatim>\<open>try\<close>/\<^verbatim>\<open>catch\<close> around the wait for confirmation, the same in the tip,
  transfer-all and withdrawal flows: when the wait fails, the status is queried, and
  the error is thrown again only when the transaction is not confirmed.
\<close>

definition confirmOrRecheck :: "env \<Rightarrow> string \<Rightarrow> unit io" where
  "confirmOrRecheck env signature =
     catch_io
       (bind_io (connection_confirmTransaction env signature) (\<lambda>err.
          if err then throw_io (Error ''Transaction failed to confirm'') else return_io ()))
       (\<lambda>confirmError.
          bind_io (sol_checkTransactionStatus env signature 3 0) (\<lambda>isConfirmed.
            if \<not> isConfirmed then throw_io confirmError else return_io ()))"

text \<open>
  The outer \<^verbatim>\<open>catch\<close> block of the three flows. \<^verbatim>\<open>signature\<close> is declared with
  \<^verbatim>\<open>const\<close> inside the \<^verbatim>\<open>try\<close> block and is not in scope here: the call
  \<^verbatim>\<open>checkTransactionStatus(connection, signature)\<close> raises a \<^verbatim>\<open>ReferenceError\<close> while
  its arguments are evaluated, and the rest of the block does not run.
\<close>

definition sol_catch :: "string \<Rightarrow> exn \<Rightarrow> unit io" where
  "sol_catch label error =
     bind_io (console_error label) (\<lambda>_.
     throw_io (ReferenceError ''signature is not defined''))"

text \<open>
  Create-or-get of the claim wallet in the \<^verbatim>\<open>/tip\<close> handler: an existing wallet has
  the amount added to it at once, a new one starts with it.
\<close>

definition tip_resolveClaimWallet ::
  "env \<Rightarrow> string \<Rightarrow> string \<Rightarrow> amount \<Rightarrow> claim_wallet io" where
  "tip_resolveClaimWallet env fromId targetUsername amount w =
     (case claimWallets w targetUsername of
        Some existing \<Rightarrow>
          let targetWallet = existing\<lparr>accrued := accrued existing + amount\<rparr>
          in (Inr targetWallet,
              w\<lparr>claimWallets := (claimWallets w)(targetUsername \<mapsto> targetWallet)\<rparr>)
      | None \<Rightarrow>
          let newWallet = e_createRandom env (now w);
              w1 = emit (CreateRandom newWallet) w;
              targetWallet = \<lparr>privateKey = uw_privateKey newWallet,
                 publicKey = uw_publicKey newWallet, fromUserId = fromId, accrued = amount\<rparr>
          in (Inr targetWallet,
              w1\<lparr>claimWallets := (claimWallets w1)(targetUsername \<mapsto> targetWallet)\<rparr>))"

text \<open>The \<^verbatim>\<open>try\<close> block of the \<^verbatim>\<open>/tip\<close> handler.\<close>

definition tip_try ::
  "env \<Rightarrow> int \<Rightarrow> string \<Rightarrow> string \<Rightarrow> amount \<Rightarrow> amount \<Rightarrow> string \<Rightarrow> claim_wallet \<Rightarrow> unit io" where
  "tip_try env chatId fromId targetUsername amount feeAmount sender targetWallet =
     bind_io (bot_sendMessage env chatId (ProcessingTip amount feeAmount targetUsername)) (\<lambda>_.
     bind_io (saveWallet env targetUsername targetWallet) (\<lambda>_.
     bind_io (connection_getLatestBlockhash env) (\<lambda>blockhash.
     bind_io (connection_sendTransaction env sender
                [(publicKey targetWallet, amount), (SOL_FEES_WALLET, feeAmount)]) (\<lambda>signature.
     bind_io (confirmOrRecheck env signature) (\<lambda>_.
     bind_io (pool_insert env ''tips''
                \<lparr>from_user_id = fromId, to_username = targetUsername,
                 tip_amount = amount, fee_amount = feeAmount,
                 transaction_signature = signature\<rparr>) (\<lambda>_.
     bind_io (bot_deleteMessage env chatId) (\<lambda>_.
     bot_sendMessage env chatId
       (TipSentSuccessfully amount feeAmount targetUsername signature))))))))"

definition tip_handler :: "env \<Rightarrow> int \<Rightarrow> string \<Rightarrow> string \<Rightarrow> amount option \<Rightarrow> unit io" where
  "tip_handler env chatId fromId targetUsername parsed w =
     (case parsed of
        None \<Rightarrow> bot_sendMessage env chatId InvalidAmount w
      | Some amount \<Rightarrow>
          if amount \<le> 0 then bot_sendMessage env chatId InvalidAmount w
          else
            let feeAmount = amount * FEE_PERCENTAGE;
                totalAmount = amount + feeAmount
            in (case userWallets w fromId of
                  None \<Rightarrow> bot_sendMessage env chatId TipCreateWalletFirst w
                | Some senderWallet \<Rightarrow>
                    bind_io (sol_getWalletBalance env (uw_publicKey senderWallet)) (\<lambda>balance.
                      if balance < totalAmount
                      then bot_sendMessage env chatId
                             (TipInsufficientBalance balance totalAmount amount feeAmount)
                      else
                        bind_io (tip_resolveClaimWallet env fromId targetUsername amount)
                          (\<lambda>targetWallet.
                             catch_io
                               (tip_try env chatId fromId targetUsername amount feeAmount
                                  (uw_publicKey senderWallet) targetWallet)
                               (sol_catch ''Transfer error:''))) w))"

definition bot_answerCallbackQuery :: "env \<Rightarrow> unit io" where
  "bot_answerCallbackQuery env w =
     (let r = e_telegram env (now w) in effect r (AnswerCallbackQuery r) w)"

text \<open>The \<^verbatim>\<open>transfer_all_\<close> branch of the callback handler of the Solana bot.\<close>

definition sol_transfer_try ::
  "env \<Rightarrow> int \<Rightarrow> string \<Rightarrow> string \<Rightarrow> amount \<Rightarrow> unit io" where
  "sol_transfer_try env chatId sender dest maxTransferAmount =
     bind_io (bot_sendMessage env chatId (ProcessingTransfer maxTransferAmount)) (\<lambda>_.
     bind_io (connection_getLatestBlockhash env) (\<lambda>blockhash.
     bind_io (connection_sendTransaction env sender [(dest, maxTransferAmount)]) (\<lambda>signature.
     bind_io (confirmOrRecheck env signature) (\<lambda>_.
     bind_io (bot_deleteMessage env chatId) (\<lambda>_.
     bot_sendMessage env chatId (TransferSuccessful maxTransferAmount signature))))))"

definition sol_transfer_all_handler :: "env \<Rightarrow> int \<Rightarrow> string \<Rightarrow> string \<Rightarrow> unit io" where
  "sol_transfer_all_handler env chatId userId username w =
     (case claimWallets w username of
        None \<Rightarrow> bot_sendMessage env chatId ClaimWalletNotFound w
      | Some claimWallet \<Rightarrow>
          (case userWallets w userId of
             None \<Rightarrow> bot_sendMessage env chatId FundingWalletNotFound w
           | Some fundingWallet \<Rightarrow>
               bind_io (sol_getWalletBalance env (publicKey claimWallet)) (\<lambda>balance.
                 if balance \<le> 0 then bot_sendMessage env chatId NoFundsAvailable
                 else
                   let maxTransferAmount = balance - NETWORK_FEE
                   in if maxTransferAmount \<le> 0
                      then bot_sendMessage env chatId
                             (InsufficientForTransfer balance maxTransferAmount)
                      else
                        bind_io
                          (catch_io
                             (sol_transfer_try env chatId (publicKey claimWallet)
                                (uw_publicKey fundingWallet) maxTransferAmount)
                             (sol_catch ''Transfer error:''))
                          (\<lambda>_. bot_answerCallbackQuery env)) w))"

text \<open>
  The message listener of the withdrawal of the Solana bot: the first message gives
  the destination, the second the amount; \<open>parsed\<close> is \<^verbatim>\<open>parseFloat(text)\<close>.
\<close>

definition sol_withdraw_try ::
  "env \<Rightarrow> int \<Rightarrow> string \<Rightarrow> string \<Rightarrow> string option \<Rightarrow> amount \<Rightarrow> unit io" where
  "sol_withdraw_try env chatId userId sender destination amount =
     (case destination of
        None \<Rightarrow>
          bind_io (bot_sendMessage env chatId (ProcessingWithdrawal amount [])) (\<lambda>_.
          throw_io (Error ''Invalid public key input''))
      | Some dest \<Rightarrow>
          bind_io (bot_sendMessage env chatId (ProcessingWithdrawal amount dest)) (\<lambda>_.
          bind_io (connection_getLatestBlockhash env) (\<lambda>blockhash.
          bind_io (connection_sendTransaction env sender [(dest, amount)]) (\<lambda>signature.
          bind_io (confirmOrRecheck env signature) (\<lambda>_.
          bind_io (bot_deleteMessage env chatId) (\<lambda>_.
          bind_io (bot_sendMessage env chatId (WithdrawalSuccessful amount dest signature)) (\<lambda>_ w.
            (Inr (), w\<lparr>sol_withdrawalState := (sol_withdrawalState w)(userId := None)\<rparr>))))))))"

definition sol_withdrawal_listener ::
  "env \<Rightarrow> int \<Rightarrow> string \<Rightarrow> string option \<Rightarrow> amount option \<Rightarrow> unit io" where
  "sol_withdrawal_listener env chatId userId text parsed w =
     (case sol_withdrawalState w userId of
        None \<Rightarrow> (Inr (), w)
      | Some withdrawal \<Rightarrow>
          (case claimWallets w (sw_username withdrawal) of
             None \<Rightarrow>
               bot_sendMessage env chatId ClaimWalletNotFound
                 (w\<lparr>sol_withdrawalState := (sol_withdrawalState w)(userId := None)\<rparr>)
           | Some wallet \<Rightarrow>
               (case sw_step withdrawal of
                  WaitingForAddress \<Rightarrow>
                    catch_io
                      (case text of
                         None \<Rightarrow> throw_io (Error ''Invalid public key input'')
                       | Some t \<Rightarrow>
                           if \<not> e_isAddress env t then throw_io (Error ''Invalid public key input'')
                           else
                             bind_io (\<lambda>w1. (Inr (), w1\<lparr>sol_withdrawalState :=
                                        (sol_withdrawalState w1)(userId \<mapsto>
                                           withdrawal\<lparr>sw_destinationAddress := Some t,
                                             sw_step := WaitingForAmount\<rparr>)\<rparr>)) (\<lambda>_.
                             bind_io (sol_getWalletBalance env (publicKey wallet)) (\<lambda>available.
                             bot_sendMessage env chatId (EnterAmount available))))
                      (\<lambda>error. bot_sendMessage env chatId InvalidAddress) w
                | WaitingForAmount \<Rightarrow>
                    (case parsed of
                       None \<Rightarrow> bot_sendMessage env chatId EnterValidAmount w
                     | Some amount \<Rightarrow>
                         if amount \<le> 0 then bot_sendMessage env chatId EnterValidAmount w
                         else
                           bind_io (sol_getWalletBalance env (publicKey wallet)) (\<lambda>balance.
                             if balance < amount
                             then bot_sendMessage env chatId (WithdrawInsufficientBalance balance)
                             else
                               catch_io
                                 (sol_withdraw_try env chatId userId (publicKey wallet)
                                    (sw_destinationAddress withdrawal) amount)
                                 (sol_catch ''Withdrawal error:'')) w))))"

subsection \<open>The rate governor (\<^verbatim>\<open>rateLimitedDelay\<close>) on the clock\<close>

text \<open>
  \<^verbatim>\<open>rateLimitedDelay\<close> reads the clock and \<^verbatim>\<open>lastRpcCall\<close>, waits on a timer when
  fewer than \<^verbatim>\<open>MIN_RPC_DELAY\<close> milliseconds have passed, and then writes the clock
  to \<^verbatim>\<open>lastRpcCall\<close>. The wait is an \<^verbatim>\<open>await\<close>: other handlers run meanwhile. The
  function is therefore two steps on the shared variable: \<open>enter\<close>, up to the
  \<^verbatim>\<open>await\<close>, and \<open>leave\<close>, after it. Times are in milliseconds.
\<close>

definition MIN_RPC_DELAY :: int where
  "MIN_RPC_DELAY = 100"

datatype task = Idle | Waiting int | Returned int

record governor =
  clock :: int
  lastRpcCall :: int
  tasks :: "nat \<Rightarrow> task"

datatype action = Call nat int | TimerFires nat int

text \<open>
  \<open>Call k t\<close>: task \<open>k\<close> calls \<^verbatim>\<open>rateLimitedDelay\<close> at time \<open>t\<close>. With no wait due it
  writes \<^verbatim>\<open>lastRpcCall\<close> at once and returns; otherwise it waits for the timer.
  \<open>TimerFires k t\<close>: the timer of task \<open>k\<close> fires at time \<open>t\<close>, not before the delay
  asked for; the task writes \<^verbatim>\<open>lastRpcCall\<close> and returns. An action that cannot
  happen in the state gives \<open>None\<close>.
\<close>

definition enter :: "nat \<Rightarrow> int \<Rightarrow> governor \<Rightarrow> governor" where
  "enter k t s =
     (let timeSinceLastCall = t - lastRpcCall s
      in if timeSinceLastCall < MIN_RPC_DELAY
         then s\<lparr>clock := t, tasks := (tasks s)(k := Waiting (t + (MIN_RPC_DELAY - timeSinceLastCall)))\<rparr>
         else s\<lparr>clock := t, lastRpcCall := t, tasks := (tasks s)(k := Returned t)\<rparr>)"

definition leave :: "nat \<Rightarrow> int \<Rightarrow> governor \<Rightarrow> governor" where
  "leave k t s = s\<lparr>clock := t, lastRpcCall := t, tasks := (tasks s)(k := Returned t)\<rparr>"

fun act :: "action \<Rightarrow> governor \<Rightarrow> governor option" where
  "act (Call k t) s =
     (if clock s \<le> t \<and> tasks s k = Idle then Some (enter k t s) else None)"
| "act (TimerFires k t) s =
     (case tasks s k of
        Waiting due \<Rightarrow> if clock s \<le> t \<and> due \<le> t then Some (leave k t s) else None
      | _ \<Rightarrow> None)"

fun schedule :: "action list \<Rightarrow> governor \<Rightarrow> governor option" where
  "schedule [] s = Some s"
| "schedule (a # as) s = (case act a s of None \<Rightarrow> None | Some s' \<Rightarrow> schedule as s')"

text \<open>One call run alone: the timer, when set, fires \<open>late\<close> milliseconds after it is due.\<close>

definition rateLimitedDelay_alone :: "int \<Rightarrow> nat \<Rightarrow> governor \<Rightarrow> governor" where
  "rateLimitedDelay_alone t late s =
     (case tasks (enter 0 t s) 0 of
        Waiting due \<Rightarrow> leave 0 (due + int late) (enter 0 t s)
      | _ \<Rightarrow> enter 0 t s)"

section \<open>Observers, checks and example inputs\<close>

subsection \<open>Observers of the trace\<close>

fun submissions :: "event list \<Rightarrow> nat" where
  "submissions [] = 0"
| "submissions (SendTransaction a t r # evs) = Suc (submissions evs)"
| "submissions (ev # evs) = submissions evs"

fun saves :: "event list \<Rightarrow> nat" where
  "saves [] = 0"
| "saves (SaveClaimWallet k cw r # evs) = Suc (saves evs)"
| "saves (ev # evs) = saves evs"

fun inserts :: "event list \<Rightarrow> (string \<times> tip_record) list" where
  "inserts [] = []"
| "inserts (InsertInto table row r # evs) = (table, row) # inserts evs"
| "inserts (ev # evs) = inserts evs"

fun chain_call :: "event \<Rightarrow> bool" where
  "chain_call RateLimitedDelay = False"
| "chain_call (Sleep ms) = False"
| "chain_call (CreateRandom kp) = False"
| "chain_call (SaveClaimWallet k cw r) = False"
| "chain_call (SaveUserWallet k uw r) = False"
| "chain_call (InsertInto table row r) = False"
| "chain_call (SendMessage chatId n r) = False"
| "chain_call (EditMessageText chatId n r) = False"
| "chain_call (DeleteMessage chatId r) = False"
| "chain_call (AnswerCallbackQuery r) = False"
| "chain_call (ConsoleError s) = False"
| "chain_call (ConsoleLog s) = False"
| "chain_call (SetTimer k ms) = False"
| "chain_call ev = True"

text \<open>The result of a call awaited for its effect, from the answer of its oracle.\<close>

definition answer :: "exn option \<Rightarrow> exn + unit" where
  "answer r = (case r of None \<Rightarrow> Inr () | Some e \<Rightarrow> Inl e)"

subsection \<open>Actions that only add effects\<close>

text \<open>\<open>extends w w'\<close>: the state \<open>w'\<close> is \<open>w\<close> with more effects in its trace, and nothing else changed.\<close>

definition extends :: "world \<Rightarrow> world \<Rightarrow> bool" where
  "extends w w' = (\<exists>evs. w' = w\<lparr>trace := trace w @ evs\<rparr>)"

definition effects_only :: "'a io \<Rightarrow> bool" where
  "effects_only m = (\<forall>w. extends w (snd (m w)))"

subsection \<open>The discipline of nonces\<close>

text \<open>
  The discipline of nonces, checked along a trace. The state of the check holds the
  transaction count last answered by the chain and not yet used, with a flag telling
  whether a transfer to the recipient had been confirmed when it was asked; the hash
  of the last transfer submitted to another address than the fee address \<open>F\<close>; and
  whether such a transfer has been confirmed. A submission must carry the count
  answered since the previous submission; a submission to \<open>F\<close> must carry one asked
  after the confirmation.
\<close>

record nonce_state =
  ns_fresh :: "(nat \<times> bool) option"
  ns_pending :: "string option"
  ns_confirmed :: bool

definition nonce_start :: nonce_state where
  "nonce_start = \<lparr>ns_fresh = None, ns_pending = None, ns_confirmed = False\<rparr>"

fun check_event :: "string \<Rightarrow> nonce_state \<Rightarrow> event \<Rightarrow> nonce_state option" where
  "check_event F s (GetTransactionCount a r) =
     Some (s\<lparr>ns_fresh := (case r of Inr n \<Rightarrow> Some (n, ns_confirmed s) | Inl e \<Rightarrow> None)\<rparr>)"
| "check_event F s (SendTransaction a tx r) =
     (case ns_fresh s of
        None \<Rightarrow> None
      | Some (n, asked_after) \<Rightarrow>
          if tx_nonce tx = Some n \<and> (if tx_to tx = F then asked_after else True)
          then Some (s\<lparr>ns_fresh := None,
                       ns_pending := (if tx_to tx = F then ns_pending s
                                      else (case r of Inr h \<Rightarrow> Some h | Inl e \<Rightarrow> None))\<rparr>)
          else None)"
| "check_event F s (WaitTransaction h r) =
     Some (if r = None \<and> ns_pending s = Some h then s\<lparr>ns_confirmed := True\<rparr> else s)"
| "check_event F s ev = Some s"

fun check_events :: "string \<Rightarrow> nonce_state \<Rightarrow> event list \<Rightarrow> nonce_state option" where
  "check_events F s [] = Some s"
| "check_events F s (ev # evs) =
     (case check_event F s ev of None \<Rightarrow> None | Some s' \<Rightarrow> check_events F s' evs)"

fun neutral :: "event \<Rightarrow> bool" where
  "neutral (GetTransactionCount a r) = False"
| "neutral (SendTransaction a tx r) = False"
| "neutral (WaitTransaction h r) = False"
| "neutral ev = True"

definition passes :: "string \<Rightarrow> nonce_state \<Rightarrow> world \<Rightarrow> world \<Rightarrow> nonce_state \<Rightarrow> bool" where
  "passes F s w w' s' = (\<exists>evs. trace w' = trace w @ evs \<and> check_events F s evs = Some s')"

definition quiet :: "'a io \<Rightarrow> bool" where
  "quiet m = (\<forall>w. \<exists>evs. trace (snd (m w)) = trace w @ evs \<and> list_all neutral evs)"

definition quiet_callbacks :: "callbacks \<Rightarrow> bool" where
  "quiet_callbacks cbs =
     (\<forall>t. quiet (invokeCallback (onSent cbs) t) \<and> quiet (invokeCallback (onConfirming cbs) t)
          \<and> quiet (invokeCallback (onConfirmed cbs) t))"

subsection \<open>The transactions of the Solana bot\<close>

text \<open>The transfers of each transaction submitted to Solana, in the order of the trace.\<close>

fun sol_submissions :: "event list \<Rightarrow> (string \<times> amount) list list" where
  "sol_submissions [] = []"
| "sol_submissions (SolSendTransaction a transfers r # evs) = transfers # sol_submissions evs"
| "sol_submissions (ev # evs) = sol_submissions evs"

text \<open>An event that is neither a count query, a submission or a wait of the Monad bot, nor
  a submission to Solana.\<close>

fun aside :: "event \<Rightarrow> bool" where
  "aside (SolSendTransaction a transfers r) = False"
| "aside ev = neutral ev"

text \<open>\<open>only P m\<close>: the action \<open>m\<close> adds events to the trace, all of them in \<open>P\<close>.\<close>

definition only :: "(event \<Rightarrow> bool) \<Rightarrow> 'a io \<Rightarrow> bool" where
  "only P m = (\<forall>w. \<exists>evs. trace (snd (m w)) = trace w @ evs \<and> list_all P evs)"

subsection \<open>Example inputs\<close>

definition example_wallet :: user_wallet where
  "example_wallet = \<lparr>uw_privateKey = ''k42'', uw_publicKey = ''0xa''\<rparr>"

definition example_world :: world where
  "example_world =
     \<lparr>trace = [], userWallets = [''42'' \<mapsto> example_wallet], claimWallets = Map.empty,
      status = initial_status, activeGmonadGiveaways = [], withdrawalState = Map.empty,
      sol_withdrawalState = Map.empty\<rparr>"

definition example_env :: env where
  "example_env =
     \<lparr>e_getBalance = (\<lambda>k a. Inr 100),
      e_getTransactionCount = (\<lambda>k a. Inr 7),
      e_sendTransaction = (\<lambda>k a tx. Inr (if tx_to tx = FEES_WALLET then ''0xfee'' else ''0xtip'')),
      e_wait = (\<lambda>k h. None),
      e_getTransactionReceipt = (\<lambda>k h. Inr True),
      e_estimateGas = (\<lambda>k. Inr 21000),
      e_getFeeData = (\<lambda>k. Inr (1 / 1000000000)),
      e_createRandom = (\<lambda>k. \<lparr>uw_privateKey = ''kc'', uw_publicKey = ''0xc''\<rparr>),
      e_query = (\<lambda>k. None),
      e_telegram = (\<lambda>k. None),
      e_getLatestBlockhash = (\<lambda>k. Inr ''blockhash''),
      e_solSendTransaction = (\<lambda>k. Inr ''sig''),
      e_confirmTransaction = (\<lambda>k s. Inr False),
      e_getSignatureStatus = (\<lambda>k s. Inr True),
      e_random = (\<lambda>k n. 0),
      e_isAddress = (\<lambda>s. True)\<rparr>"




definition rpc_down_env :: env where
  "rpc_down_env = example_env\<lparr>e_getBalance := (\<lambda>k a. Inl (Error ''network error''))\<rparr>"

definition example_claim_wallet :: claim_wallet where
  "example_claim_wallet =
     \<lparr>privateKey = ''kc'', publicKey = ''0xc'', fromUserId = ''42'', accrued = 3\<rparr>"

definition busy_world :: world where
  "busy_world = example_world
     \<lparr>claimWallets := [''bob'' \<mapsto> example_claim_wallet],
      withdrawalState := [7 \<mapsto> ClaimWithdrawal ''bob'' example_claim_wallet],
      sol_withdrawalState := [''42'' \<mapsto>
         \<lparr>sw_username = ''bob'', sw_step = WaitingForAmount,
          sw_destinationAddress = Some ''dest''\<rparr>]\<rparr>"

definition empty_giveaway :: giveaway where
  "empty_giveaway =
     \<lparr>g_chatId = 5, g_senderId = ''42'', g_senderWallet = example_wallet, g_amount = 1,
      g_fee = 1 / 10, g_participants = []\<rparr>"

definition giveaway_world :: world where
  "giveaway_world = example_world\<lparr>activeGmonadGiveaways := [(''5_1000'', empty_giveaway)]\<rparr>"

definition idle_governor :: governor where
  "idle_governor = \<lparr>clock = 1000, lastRpcCall = 1000, tasks = (\<lambda>k. Idle)\<rparr>"

definition new_claim_wallet :: claim_wallet where
  "new_claim_wallet =
     \<lparr>privateKey = ''kc'', publicKey = ''0xc'', fromUserId = ''42'', accrued = 0\<rparr>"

definition resolved_world :: world where
  "resolved_world = example_world
     \<lparr>trace := [CreateRandom \<lparr>uw_privateKey = ''kc'', uw_publicKey = ''0xc''\<rparr>,
                 SaveClaimWallet ''bob'' new_claim_wallet None],
      claimWallets := [''bob'' \<mapsto> new_claim_wallet]\<rparr>"

text \<open>An environment in which the transaction count of the sender grows from 7 to 8.\<close>

definition chain_env :: env where
  "chain_env = example_env\<lparr>e_getTransactionCount := (\<lambda>k a. if k < 10 then Inr 7 else Inr 8)\<rparr>"



definition submit_fails_env :: env where
  "submit_fails_env = example_env\<lparr>e_solSendTransaction := (\<lambda>k. Inl (Error ''Blockhash not found''))\<rparr>"

definition wait_fails_env :: env where
  "wait_fails_env = example_env\<lparr>e_wait := (\<lambda>k h. Some (Error ''timeout''))\<rparr>"

section \<open>Properties\<close>

subsection \<open>The retry transfer executor\<close>

lemma now_emit [simp]: "now (emit ev w) = Suc (now w)"
  by (simp add: now_def emit_def)

lemma trace_emit [simp]: "trace (emit ev w) = trace w @ [ev]"
  by (simp add: emit_def)

lemma submissions_append [simp]: "submissions (xs @ ys) = submissions xs + submissions ys"
  by (induction xs rule: submissions.induct) simp_all


lemma refreshNonce_eq:
  "refreshNonce env wallet w =
     (let w2 = emit RateLimitedDelay (emit (Sleep 2000)
                 (emit (ConsoleLog ''Error detected, retrying...'') w));
          r = e_getTransactionCount env (now w2) wallet
      in (r, emit (GetTransactionCount wallet r) w2))"
  by (simp add: refreshNonce_def bind_io_def console_log_def setTimeout_def
      rateLimitedDelay_def provider_getTransactionCount_def request_def Let_def)



lemma retryLoop_unfold:
  assumes "i < maxRetries" and "attempt env wallet cbs tx w = (ra, w1)"
  shows "retryLoop env wallet cbs maxRetries i tx w =
     (case ra of
        Inr transaction \<Rightarrow> (Inr (Some transaction), w1)
      | Inl error \<Rightarrow>
          if i = maxRetries - 1 \<or> \<not> isRetryable error then (Inl error, w1)
          else (case refreshNonce env wallet w1 of
                  (Inl e, w2) \<Rightarrow> (Inl e, w2)
                | (Inr newNonce, w2) \<Rightarrow>
                    retryLoop env wallet cbs maxRetries (i + 1)
                      (tx\<lparr>tx_nonce := Some newNonce\<rparr>) w2))"
  using assms by (subst retryLoop.simps) (simp split: sum.splits)


lemma retryLoop_done: "\<not> i < maxRetries \<Longrightarrow> retryLoop env wallet cbs maxRetries i tx w = (Inr None, w)"
  by (subst retryLoop.simps) simp





subsection \<open>Balance query and the balance check\<close>

lemmas io_defs = bind_io_def catch_io_def return_io_def throw_io_def effect_def request_def
  console_error_def console_log_def setTimeout_def rateLimitedDelay_def

lemma now_plus [simp]: "now (w\<lparr>trace := trace w @ evs\<rparr>) = now w + length evs"
  by (simp add: now_def)

lemma emit_emit: "emit b (emit a w) = w\<lparr>trace := trace w @ [a, b]\<rparr>"
  by (simp add: emit_def)

lemma getWalletBalance_ok:
  "e_getBalance env (Suc (now w)) address = Inr balance \<Longrightarrow>
   getWalletBalance env address w =
     (Inr balance, w\<lparr>trace := trace w @ [RateLimitedDelay, GetBalance address (Inr balance)]\<rparr>)"
  by (simp add: getWalletBalance_def provider_getBalance_def io_defs Let_def emit_def now_def)

lemma getWalletBalance_fails:
  "e_getBalance env (Suc (now w)) address = Inl error \<Longrightarrow>
   getWalletBalance env address w =
     (Inr 0, w\<lparr>trace := trace w @ [RateLimitedDelay, GetBalance address (Inl error),
                                ConsoleError ''Error getting balance:'']\<rparr>)"
  by (simp add: getWalletBalance_def provider_getBalance_def io_defs Let_def emit_def now_def)

lemma getWalletBalance_never_throws: "fst (getWalletBalance env address w) \<noteq> Inl e"
  by (simp add: getWalletBalance_def provider_getBalance_def io_defs Let_def
      split: sum.splits)


lemma sol_getWalletBalance_fails:
  "e_getBalance env (now w) address = Inl error \<Longrightarrow>
   sol_getWalletBalance env address w =
     (Inr 0, w\<lparr>trace := trace w @ [SolGetBalance address (Inl error),
                                ConsoleError ''Error getting balance:'']\<rparr>)"
  by (simp add: sol_getWalletBalance_def connection_getBalance_def io_defs Let_def emit_def)

lemma sol_getWalletBalance_never_throws: "fst (sol_getWalletBalance env address w) \<noteq> Inl e"
  by (simp add: sol_getWalletBalance_def connection_getBalance_def io_defs Let_def
      split: sum.splits)

lemma bot_sendMessage_eq:
  "bot_sendMessage env chatId n w =
     (answer (e_telegram env (now w)),
      w\<lparr>trace := trace w @ [SendMessage chatId n (e_telegram env (now w))]\<rparr>)"
  by (simp add: bot_sendMessage_def io_defs Let_def emit_def answer_def split: option.splits)






lemma NETWORK_FEE_pos: "0 < NETWORK_FEE"
  by (simp add: NETWORK_FEE_def)

lemma required_pos: "0 < amount \<Longrightarrow> 0 < amount + amount * FEE_PERCENTAGE + NETWORK_FEE"
  by (simp add: FEE_PERCENTAGE_def NETWORK_FEE_def add_pos_pos)

lemma required_pos': "0 < amount \<Longrightarrow> 0 < amount + amount * FEE_PERCENTAGE"
  by (simp add: FEE_PERCENTAGE_def add_pos_pos)

lemma pay_rpc_down:
  assumes "0 < amount" and "userWallets w userId = Some wallet"
    and "e_getBalance env (Suc (now w)) (uw_publicKey wallet) = Inl error"
  shows "pay_handler env chatId userId recipient (Some amount) w =
     (answer (e_telegram env (now w + 3)),
      w\<lparr>trace := trace w @
         [RateLimitedDelay, GetBalance (uw_publicKey wallet) (Inl error),
          ConsoleError ''Error getting balance:'',
          SendMessage chatId
            (InsufficientBalance (amount + amount * FEE_PERCENTAGE + NETWORK_FEE) 0)
            (e_telegram env (now w + 3))]\<rparr>)"
  using assms required_pos [OF assms(1)]
  by (simp add: pay_handler_def bind_io_def getWalletBalance_fails bot_sendMessage_eq Let_def
      numeral_3_eq_3)

lemma gmonad_rpc_down:
  assumes "0 < amount" and "userWallets w userId = Some wallet"
    and "e_getBalance env (Suc (now w)) (uw_publicKey wallet) = Inl error"
  shows "gmonad_handler env chatId userId True (Some (Some amount)) giveawayKey w =
     (answer (e_telegram env (now w + 3)),
      w\<lparr>trace := trace w @
         [RateLimitedDelay, GetBalance (uw_publicKey wallet) (Inl error),
          ConsoleError ''Error getting balance:'',
          SendMessage chatId
            (InsufficientBalance (amount + amount * FEE_PERCENTAGE + NETWORK_FEE) 0)
            (e_telegram env (now w + 3))]\<rparr>)"
  using assms required_pos [OF assms(1)]
  by (simp add: gmonad_handler_def bind_io_def getWalletBalance_fails bot_sendMessage_eq Let_def
      numeral_3_eq_3)

lemma tip_rpc_down:
  assumes "0 < amount" and "userWallets w userId = Some wallet"
    and "e_getBalance env (now w) (uw_publicKey wallet) = Inl error"
  shows "tip_handler env chatId userId recipient (Some amount) w =
     (answer (e_telegram env (now w + 2)),
      w\<lparr>trace := trace w @
         [SolGetBalance (uw_publicKey wallet) (Inl error),
          ConsoleError ''Error getting balance:'',
          SendMessage chatId
            (TipInsufficientBalance 0 (amount + amount * FEE_PERCENTAGE) amount
               (amount * FEE_PERCENTAGE))
            (e_telegram env (now w + 2))]\<rparr>)"
  using assms required_pos' [OF assms(1)]
  by (simp add: tip_handler_def bind_io_def sol_getWalletBalance_fails bot_sendMessage_eq Let_def)

lemma transfer_all_rpc_down:
  assumes "claimWallets w username = Some claimWallet"
    and "e_getBalance env (Suc (now w)) (publicKey claimWallet) = Inl error"
  shows "transfer_all_handler env chatId userId username w =
     (answer (e_telegram env (now w + 3)),
      w\<lparr>trace := trace w @
         [RateLimitedDelay, GetBalance (publicKey claimWallet) (Inl error),
          ConsoleError ''Error getting balance:'',
          SendMessage chatId (ClaimInsufficientBalance 0) (e_telegram env (now w + 3))]\<rparr>)"
  using assms NETWORK_FEE_pos
  by (simp add: transfer_all_handler_def bind_io_def getWalletBalance_fails bot_sendMessage_eq
      numeral_3_eq_3)

lemma sol_transfer_all_rpc_down:
  assumes "claimWallets w username = Some claimWallet"
    and "userWallets w userId = Some fundingWallet"
    and "e_getBalance env (now w) (publicKey claimWallet) = Inl error"
  shows "sol_transfer_all_handler env chatId userId username w =
     (answer (e_telegram env (now w + 2)),
      w\<lparr>trace := trace w @
         [SolGetBalance (publicKey claimWallet) (Inl error),
          ConsoleError ''Error getting balance:'',
          SendMessage chatId NoFundsAvailable (e_telegram env (now w + 2))]\<rparr>)"
  using assms
  by (simp add: sol_transfer_all_handler_def bind_io_def sol_getWalletBalance_fails
      bot_sendMessage_eq)

lemma sol_withdrawal_rpc_down:
  assumes "sol_withdrawalState w userId = Some withdrawal"
    and "claimWallets w (sw_username withdrawal) = Some wallet"
    and "sw_step withdrawal = WaitingForAmount"
    and "0 < amount"
    and "e_getBalance env (now w) (publicKey wallet) = Inl error"
  shows "sol_withdrawal_listener env chatId userId msgText (Some amount) w =
     (answer (e_telegram env (now w + 2)),
      w\<lparr>trace := trace w @
         [SolGetBalance (publicKey wallet) (Inl error),
          ConsoleError ''Error getting balance:'',
          SendMessage chatId (WithdrawInsufficientBalance 0) (e_telegram env (now w + 2))]\<rparr>)"
  using assms
  by (simp add: sol_withdrawal_listener_def bind_io_def sol_getWalletBalance_fails
      bot_sendMessage_eq)

text \<open>What the withdrawal listener of the Monad bot does after its refusal message.\<close>

lemma withdrawal_rpc_down:
  assumes "withdrawalState w userId = Some state"
    and "state = ClaimWithdrawal username claimWallet \<and> address = publicKey claimWallet
         \<or> state = FundingWithdrawal userWallet \<and> address = uw_publicKey userWallet"
    and "t = [] \<or> \<not> startsWith t ''/''" and "e_isAddress env t"
    and "e_getBalance env (Suc (now w)) address = Inl error"
    and "e_telegram env (now w + 3) = None"
  shows "withdrawal_listener env chatId userId (Some t) w =
     (Inr (),
      w\<lparr>trace := trace w @
         [RateLimitedDelay, GetBalance address (Inl error),
          ConsoleError ''Error getting balance:'',
          SendMessage chatId (WithdrawInsufficientBalance 0) None],
        withdrawalState := (withdrawalState w)(userId := None)\<rparr>)"
  using assms
  by (auto simp: withdrawal_listener_def bind_io_def catch_io_def getWalletBalance_fails
      bot_sendMessage_eq deleteWithdrawalState_def answer_def numeral_3_eq_3)

text \<open>
  Claim C10. The balance query of either bot never throws, and answers 0 when the
  call to the chain fails. With the chain unreachable, every operation gated on the
  balance then refuses with its insufficient-balance message and makes no other chain
  call: \<^verbatim>\<open>/pay\<close>, \<^verbatim>\<open>/gmonad\<close>, \<^verbatim>\<open>/tip\<close>, transfer-all of both bots, and the
  withdrawals of both bots. No error of the chain client reaches the user.
\<close>

theorem unreachable_chain_is_zero_balance:
  assumes down: "\<forall>k a. e_getBalance env k a = Inl error"
  shows
    "fst (getWalletBalance env' address w) \<noteq> Inl e
     \<and> fst (sol_getWalletBalance env' address w) \<noteq> Inl e
     \<and> fst (getWalletBalance env address w) = Inr 0
     \<and> fst (sol_getWalletBalance env address w) = Inr 0
     \<and> (0 < amount \<and> userWallets w userId = Some wallet \<longrightarrow>
          pay_handler env chatId userId recipient (Some amount) w =
            (answer (e_telegram env (now w + 3)),
             w\<lparr>trace := trace w @
                [RateLimitedDelay, GetBalance (uw_publicKey wallet) (Inl error),
                 ConsoleError ''Error getting balance:'',
                 SendMessage chatId
                   (InsufficientBalance (amount + amount * FEE_PERCENTAGE + NETWORK_FEE) 0)
                   (e_telegram env (now w + 3))]\<rparr>)
          \<and> gmonad_handler env chatId userId True (Some (Some amount)) giveawayKey w =
            (answer (e_telegram env (now w + 3)),
             w\<lparr>trace := trace w @
                [RateLimitedDelay, GetBalance (uw_publicKey wallet) (Inl error),
                 ConsoleError ''Error getting balance:'',
                 SendMessage chatId
                   (InsufficientBalance (amount + amount * FEE_PERCENTAGE + NETWORK_FEE) 0)
                   (e_telegram env (now w + 3))]\<rparr>)
          \<and> tip_handler env chatId userId recipient (Some amount) w =
            (answer (e_telegram env (now w + 2)),
             w\<lparr>trace := trace w @
                [SolGetBalance (uw_publicKey wallet) (Inl error),
                 ConsoleError ''Error getting balance:'',
                 SendMessage chatId
                   (TipInsufficientBalance 0 (amount + amount * FEE_PERCENTAGE) amount
                      (amount * FEE_PERCENTAGE))
                   (e_telegram env (now w + 2))]\<rparr>))
     \<and> (claimWallets w username = Some claimWallet \<longrightarrow>
          transfer_all_handler env chatId userId username w =
            (answer (e_telegram env (now w + 3)),
             w\<lparr>trace := trace w @
                [RateLimitedDelay, GetBalance (publicKey claimWallet) (Inl error),
                 ConsoleError ''Error getting balance:'',
                 SendMessage chatId (ClaimInsufficientBalance 0)
                   (e_telegram env (now w + 3))]\<rparr>)
          \<and> (userWallets w userId = Some fundingWallet \<longrightarrow>
               sol_transfer_all_handler env chatId userId username w =
                 (answer (e_telegram env (now w + 2)),
                  w\<lparr>trace := trace w @
                     [SolGetBalance (publicKey claimWallet) (Inl error),
                      ConsoleError ''Error getting balance:'',
                      SendMessage chatId NoFundsAvailable (e_telegram env (now w + 2))]\<rparr>)))
     \<and> (withdrawalState w senderId = Some state
          \<and> (state = ClaimWithdrawal username claimWallet \<and> source = publicKey claimWallet
              \<or> state = FundingWithdrawal userWallet \<and> source = uw_publicKey userWallet)
          \<and> (t = [] \<or> \<not> startsWith t ''/'') \<and> e_isAddress env t
          \<and> e_telegram env (now w + 3) = None \<longrightarrow>
          withdrawal_listener env chatId senderId (Some t) w =
            (Inr (),
             w\<lparr>trace := trace w @
                [RateLimitedDelay, GetBalance source (Inl error),
                 ConsoleError ''Error getting balance:'',
                 SendMessage chatId (WithdrawInsufficientBalance 0) None],
               withdrawalState := (withdrawalState w)(senderId := None)\<rparr>))
     \<and> (sol_withdrawalState w userId = Some withdrawal
          \<and> claimWallets w (sw_username withdrawal) = Some claimWallet
          \<and> sw_step withdrawal = WaitingForAmount \<and> 0 < amount \<longrightarrow>
          sol_withdrawal_listener env chatId userId msgText (Some amount) w =
            (answer (e_telegram env (now w + 2)),
             w\<lparr>trace := trace w @
                [SolGetBalance (publicKey claimWallet) (Inl error),
                 ConsoleError ''Error getting balance:'',
                 SendMessage chatId (WithdrawInsufficientBalance 0)
                   (e_telegram env (now w + 2))]\<rparr>))"
proof -
  have d: "e_getBalance env k a = Inl error" for k a
    using down by simp
  have wd: "withdrawalState w senderId = Some state
          \<and> (state = ClaimWithdrawal username claimWallet \<and> source = publicKey claimWallet
              \<or> state = FundingWithdrawal userWallet \<and> source = uw_publicKey userWallet)
          \<and> (t = [] \<or> \<not> startsWith t ''/'') \<and> e_isAddress env t
          \<and> e_telegram env (now w + 3) = None \<longrightarrow>
          withdrawal_listener env chatId senderId (Some t) w =
            (Inr (),
             w\<lparr>trace := trace w @
                [RateLimitedDelay, GetBalance source (Inl error),
                 ConsoleError ''Error getting balance:'',
                 SendMessage chatId (WithdrawInsufficientBalance 0) None],
               withdrawalState := (withdrawalState w)(senderId := None)\<rparr>)"
    by (intro impI, elim conjE) (rule withdrawal_rpc_down [OF _ _ _ _ d], assumption+)
  show ?thesis
    using getWalletBalance_never_throws [of env' address w e]
      sol_getWalletBalance_never_throws [of env' address w e]
    by (intro conjI impI wd [rule_format])
      (simp_all add: getWalletBalance_fails [OF d] sol_getWalletBalance_fails [OF d]
        pay_rpc_down [OF _ _ d] gmonad_rpc_down [OF _ _ d] tip_rpc_down [OF _ _ d]
        transfer_all_rpc_down [OF _ d] sol_transfer_all_rpc_down [OF _ _ d]
        sol_withdrawal_rpc_down [OF _ _ _ _ d])
qed

theorem unreachable_chain_is_zero_balance_witness:
  "(\<forall>k a. e_getBalance rpc_down_env k a = Inl (Error ''network error''))
   \<and> (0 :: amount) < 10
   \<and> userWallets busy_world ''42'' = Some example_wallet
   \<and> claimWallets busy_world ''bob'' = Some example_claim_wallet
   \<and> withdrawalState busy_world 7 = Some (ClaimWithdrawal ''bob'' example_claim_wallet)
   \<and> \<not> startsWith ''0xdest'' ''/'' \<and> e_isAddress rpc_down_env ''0xdest''
   \<and> e_telegram rpc_down_env (now busy_world + 3) = None
   \<and> sol_withdrawalState busy_world ''42'' =
        Some \<lparr>sw_username = ''bob'', sw_step = WaitingForAmount,
              sw_destinationAddress = Some ''dest''\<rparr>
   \<and> fst (getWalletBalance rpc_down_env ''0xa'' busy_world) = Inr 0
   \<and> pay_handler rpc_down_env 1 ''42'' ''bob'' (Some 10) busy_world =
        (Inr (),
         busy_world\<lparr>trace :=
           [RateLimitedDelay, GetBalance ''0xa'' (Inl (Error ''network error'')),
            ConsoleError ''Error getting balance:'',
            SendMessage 1 (InsufficientBalance (10 + 10 * FEE_PERCENTAGE + NETWORK_FEE) 0)
              None]\<rparr>)
   \<and> transfer_all_handler rpc_down_env 1 ''42'' ''bob'' busy_world =
        (Inr (),
         busy_world\<lparr>trace :=
           [RateLimitedDelay, GetBalance ''0xc'' (Inl (Error ''network error'')),
            ConsoleError ''Error getting balance:'',
            SendMessage 1 (ClaimInsufficientBalance 0) None]\<rparr>)
   \<and> withdrawal_listener rpc_down_env 1 7 (Some ''0xdest'') busy_world =
        (Inr (),
         busy_world\<lparr>trace :=
           [RateLimitedDelay, GetBalance ''0xc'' (Inl (Error ''network error'')),
            ConsoleError ''Error getting balance:'',
            SendMessage 1 (WithdrawInsufficientBalance 0) None],
           withdrawalState := Map.empty\<rparr>)
   \<and> sol_withdrawal_listener rpc_down_env 1 ''42'' (Some ''10'') (Some 10) busy_world =
        (Inr (),
         busy_world\<lparr>trace :=
           [SolGetBalance ''0xc'' (Inl (Error ''network error'')),
            ConsoleError ''Error getting balance:'',
            SendMessage 1 (WithdrawInsufficientBalance 0) None]\<rparr>)"
proof -
  have down: "\<forall>k a. e_getBalance rpc_down_env k a = Inl (Error ''network error'')"
    by (simp add: rpc_down_env_def)
  show ?thesis
    using unreachable_chain_is_zero_balance [OF down, where w = busy_world
        and address = "''0xa''" and amount = 10 and userId = "''42''"
        and wallet = example_wallet and chatId = 1 and recipient = "''bob''"
        and username = "''bob''" and claimWallet = example_claim_wallet
        and senderId = 7 and state = "ClaimWithdrawal ''bob'' example_claim_wallet"
        and source = "''0xc''" and t = "''0xdest''" and msgText = "Some ''10''"
        and withdrawal = "\<lparr>sw_username = ''bob'', sw_step = WaitingForAmount,
              sw_destinationAddress = Some ''dest''\<rparr>"]
    by (simp add: busy_world_def example_world_def example_wallet_def
        example_claim_wallet_def rpc_down_env_def example_env_def now_def answer_def)
qed

subsection \<open>The giveaway\<close>

lemma map_of_registry_delete [simp]:
  "map_of (registry_delete k gs) k' = (if k' = k then None else map_of gs k')"
  by (induction gs) (auto simp: registry_delete_def)

lemma enterFirst_keys [simp]:
  "map fst (enterFirst chatId userId username gs) = map fst gs"
  by (induction gs) auto

lemma map_of_enterFirst_None:
  "map_of (enterFirst chatId userId username gs) k = None \<longleftrightarrow> map_of gs k = None"
  by (simp add: map_of_eq_None_iff flip: set_map)

lemma enterFirst_other_chat:
  "\<forall>kg \<in> set gs. g_chatId (snd kg) \<noteq> chatId \<Longrightarrow> enterFirst chatId userId username gs = gs"
  by (induction gs) auto

lemma gmonad_listener_returns: "fst (gmonad_listener chatId msgText userId username w) = Inr ()"
  by (simp add: gmonad_listener_def console_log_def Let_def split: option.splits prod.splits)

lemma gmonad_listener_closed:
  "map_of (activeGmonadGiveaways (snd (gmonad_listener chatId msgText userId username w))) k = None
     \<longleftrightarrow> map_of (activeGmonadGiveaways w) k = None"
  by (simp add: gmonad_listener_def console_log_def Let_def emit_def map_of_enterFirst_None
      split: option.splits prod.splits)

lemma gmonad_listener_no_chain:
  "trace (snd (gmonad_listener chatId msgText userId username w)) = trace w
   \<or> trace (snd (gmonad_listener chatId msgText userId username w))
       = trace w @ [ConsoleLog ''User entered giveaway'']"
  by (simp add: gmonad_listener_def console_log_def Let_def split: option.splits prod.splits)

lemma gmonad_listener_ignored:
  "\<forall>kg \<in> set (activeGmonadGiveaways w). g_chatId (snd kg) \<noteq> chatId \<Longrightarrow>
     gmonad_listener chatId msgText userId username w = (Inr (), w)"
  by (simp add: gmonad_listener_def console_log_def Let_def enterFirst_other_chat
      split: option.splits prod.splits)

lemma gmonad_timeout_empty:
  assumes "map_of (activeGmonadGiveaways w) giveawayKey = Some g" and "g_participants g = []"
  shows "gmonad_timeout env chatId giveawayKey w =
     (answer (e_telegram env (now w)),
      w\<lparr>trace := trace w @ [SendMessage chatId NoParticipants (e_telegram env (now w))],
        activeGmonadGiveaways := registry_delete giveawayKey (activeGmonadGiveaways w)\<rparr>)"
  using assms by (simp add: gmonad_timeout_def bot_sendMessage_eq now_def)

lemma gmonad_timeout_closed:
  "map_of (activeGmonadGiveaways w) giveawayKey = None \<Longrightarrow>
     gmonad_timeout env chatId giveawayKey w = (Inr (), w)"
  by (simp add: gmonad_timeout_def)

lemma closeGmonadGiveaway_closed:
  "map_of (activeGmonadGiveaways w) giveawayKey = None \<Longrightarrow>
     closeGmonadGiveaway env giveawayKey w = (Inr (), w)"
  by (simp add: closeGmonadGiveaway_def)

lemma closeGmonadGiveaway_empty:
  assumes "map_of (activeGmonadGiveaways w) giveawayKey = Some g" and "g_participants g = []"
  shows "trace (snd (closeGmonadGiveaway env giveawayKey w)) =
           trace w @ [SendMessage (g_chatId g) NoParticipants (e_telegram env (now w))]
         \<and> (e_telegram env (now w) = None \<longrightarrow>
              map_of (activeGmonadGiveaways (snd (closeGmonadGiveaway env giveawayKey w)))
                giveawayKey = None)"
  using assms
  by (simp add: closeGmonadGiveaway_def bot_sendMessage_eq bind_io_def answer_def
      split: option.splits)

lemma gmonad_handler_starts:
  assumes "0 < amount" and "userWallets w userId = Some wallet"
    and "e_getBalance env (Suc (now w)) (uw_publicKey wallet) = Inr balance"
    and "amount + amount * FEE_PERCENTAGE + NETWORK_FEE \<le> balance"
  shows "gmonad_handler env chatId userId True (Some (Some amount)) giveawayKey w =
     (answer (e_telegram env (now w + 3)),
      w\<lparr>trace := trace w @
           [RateLimitedDelay, GetBalance (uw_publicKey wallet) (Inr balance),
            SetTimer giveawayKey 60000,
            SendMessage chatId (GiveawayStarted amount) (e_telegram env (now w + 3))],
        activeGmonadGiveaways :=
          registry_set giveawayKey
            \<lparr>g_chatId = chatId, g_senderId = userId, g_senderWallet = wallet,
             g_amount = amount, g_fee = amount * FEE_PERCENTAGE, g_participants = []\<rparr>
            (activeGmonadGiveaways w)\<rparr>)"
  using assms
  by (simp add: gmonad_handler_def bind_io_def getWalletBalance_ok bot_sendMessage_eq Let_def
      emit_def now_def numeral_3_eq_3)

text \<open>
  Claim C8. The command handler registers the giveaway with no participant and sets
  its timer to 60000 ms. When the timer fires and nobody has entered, the giveaway is
  removed from the registry and the no-participants notice is the only effect: no
  chain call, no settlement. Once a giveaway is not in the registry, an entry message
  returns without error, leaves it out of the registry and has no effect but, at
  most, the log line of an entry into another giveaway of the chat; with no open
  giveaway in the chat nothing changes at all. A timer or a close for a giveaway no
  longer in the registry does nothing.
\<close>

theorem giveaway_empty_or_closed:
  "(0 < amount \<and> userWallets w0 senderId = Some wallet
      \<and> e_getBalance env (Suc (now w0)) (uw_publicKey wallet) = Inr balance
      \<and> amount + amount * FEE_PERCENTAGE + NETWORK_FEE \<le> balance \<longrightarrow>
      gmonad_handler env chatId senderId True (Some (Some amount)) giveawayKey w0 =
        (answer (e_telegram env (now w0 + 3)),
         w0\<lparr>trace := trace w0 @
              [RateLimitedDelay, GetBalance (uw_publicKey wallet) (Inr balance),
               SetTimer giveawayKey 60000,
               SendMessage chatId (GiveawayStarted amount) (e_telegram env (now w0 + 3))],
           activeGmonadGiveaways :=
             registry_set giveawayKey
               \<lparr>g_chatId = chatId, g_senderId = senderId, g_senderWallet = wallet,
                g_amount = amount, g_fee = amount * FEE_PERCENTAGE, g_participants = []\<rparr>
               (activeGmonadGiveaways w0)\<rparr>))
   \<and> (map_of (activeGmonadGiveaways w) giveawayKey = Some g \<and> g_participants g = [] \<longrightarrow>
      gmonad_timeout env chatId giveawayKey w =
        (answer (e_telegram env (now w)),
         w\<lparr>trace := trace w @ [SendMessage chatId NoParticipants (e_telegram env (now w))],
           activeGmonadGiveaways := registry_delete giveawayKey (activeGmonadGiveaways w)\<rparr>)
      \<and> map_of (registry_delete giveawayKey (activeGmonadGiveaways w)) giveawayKey = None)
   \<and> (map_of (activeGmonadGiveaways w') closedKey = None \<longrightarrow>
      fst (gmonad_listener chat msgText userId username w') = Inr ()
      \<and> map_of (activeGmonadGiveaways (snd (gmonad_listener chat msgText userId username w')))
            closedKey = None
      \<and> (trace (snd (gmonad_listener chat msgText userId username w')) = trace w'
          \<or> trace (snd (gmonad_listener chat msgText userId username w'))
              = trace w' @ [ConsoleLog ''User entered giveaway''])
      \<and> gmonad_timeout env chat closedKey w' = (Inr (), w')
      \<and> closeGmonadGiveaway env closedKey w' = (Inr (), w'))
   \<and> ((\<forall>kg \<in> set (activeGmonadGiveaways w'). g_chatId (snd kg) \<noteq> chat) \<longrightarrow>
      gmonad_listener chat msgText userId username w' = (Inr (), w'))"
  using gmonad_handler_starts [of amount w0 senderId wallet env balance chatId giveawayKey]
    gmonad_timeout_empty [of w giveawayKey g env chatId]
    gmonad_listener_returns [of chat msgText userId username w']
    gmonad_listener_closed [of chat msgText userId username w' closedKey]
    gmonad_listener_no_chain [of chat msgText userId username w']
    gmonad_timeout_closed [of w' closedKey env chat]
    closeGmonadGiveaway_closed [of w' closedKey env]
    gmonad_listener_ignored [of w' chat msgText userId username]
  by simp

theorem giveaway_empty_or_closed_witness:
  "(0 :: amount) < 1 \<and> userWallets example_world ''42'' = Some example_wallet
   \<and> e_getBalance example_env (Suc (now example_world)) (uw_publicKey example_wallet) = Inr 100
   \<and> (1 :: amount) + 1 * FEE_PERCENTAGE + NETWORK_FEE \<le> 100
   \<and> gmonad_handler example_env 5 ''42'' True (Some (Some 1)) ''5_1000'' example_world =
        (Inr (),
         giveaway_world\<lparr>trace :=
           [RateLimitedDelay, GetBalance ''0xa'' (Inr 100), SetTimer ''5_1000'' 60000,
            SendMessage 5 (GiveawayStarted 1) None]\<rparr>)
   \<and> map_of (activeGmonadGiveaways giveaway_world) ''5_1000'' = Some empty_giveaway
   \<and> g_participants empty_giveaway = []
   \<and> gmonad_timeout example_env 5 ''5_1000'' giveaway_world =
        (Inr (), example_world\<lparr>trace := [SendMessage 5 NoParticipants None]\<rparr>)
   \<and> map_of (activeGmonadGiveaways (example_world\<lparr>trace := [SendMessage 5 NoParticipants None]\<rparr>))
        ''5_1000'' = None
   \<and> gmonad_listener 5 (Some '' GMonad '') 9 (Some ''carol'')
        (example_world\<lparr>trace := [SendMessage 5 NoParticipants None]\<rparr>) =
        (Inr (), example_world\<lparr>trace := [SendMessage 5 NoParticipants None]\<rparr>)"
proof -
  have closed: "map_of (activeGmonadGiveaways
      (example_world\<lparr>trace := [SendMessage 5 NoParticipants None]\<rparr>)) ''5_1000'' = None"
    by (simp add: example_world_def)
  show ?thesis
    using giveaway_empty_or_closed [where w = giveaway_world and giveawayKey = "''5_1000''"
        and g = empty_giveaway and env = example_env and chatId = 5
        and w' = "example_world\<lparr>trace := [SendMessage 5 NoParticipants None]\<rparr>"
        and closedKey = "''5_1000''" and chat = 5 and msgText = "Some '' GMonad ''"
        and userId = 9 and username = "Some ''carol''"
        and ?w0.0 = example_world and amount = 1 and senderId = "''42''"
        and wallet = example_wallet and balance = 100]
    by (simp add: giveaway_world_def empty_giveaway_def example_world_def example_env_def
        example_wallet_def registry_delete_def now_def answer_def FEE_PERCENTAGE_def
        NETWORK_FEE_def)
qed

subsection \<open>The rate governor\<close>

text \<open>
  A call that runs alone returns at least \<^verbatim>\<open>MIN_RPC_DELAY\<close> after the time in
  \<^verbatim>\<open>lastRpcCall\<close>, and leaves its own return time there.
\<close>

lemma rateLimitedDelay_alone_spacing:
  "\<exists>t'. tasks (rateLimitedDelay_alone t late s) 0 = Returned t'
        \<and> lastRpcCall s + MIN_RPC_DELAY \<le> t'
        \<and> lastRpcCall (rateLimitedDelay_alone t late s) = t'"
  by (simp add: rateLimitedDelay_alone_def enter_def leave_def Let_def)

text \<open>
  Claim C9 fails on the code. The governor last stamped time 1000; two handlers call
  \<^verbatim>\<open>rateLimitedDelay\<close> at 1010 and at 1020. Each reads \<^verbatim>\<open>lastRpcCall\<close> before the
  other has written it, both timers are due at 1100, and both calls return at 1100:
  the two chain calls that follow are 0 ms apart.
\<close>

theorem rateLimitedDelay_interleaved:
  "map_option (\<lambda>s. (tasks s 0, tasks s 1, lastRpcCall s))
     (schedule [Call 0 1010, Call 1 1020, TimerFires 0 1100, TimerFires 1 1100] idle_governor)
   = Some (Returned 1100, Returned 1100, 1100)"
  by (simp add: idle_governor_def enter_def leave_def MIN_RPC_DELAY_def Let_def)

subsection \<open>Actions that only add effects\<close>

lemma extends_refl [simp]: "extends w w"
  by (auto simp: extends_def intro: exI [of _ "[]"])

lemma extends_trans: "extends w w1 \<Longrightarrow> extends w1 w2 \<Longrightarrow> extends w w2"
  by (auto simp: extends_def)

lemma extends_emit [simp]: "extends w (emit ev w)"
  by (auto simp: extends_def emit_def)

lemma extends_emit': "extends w w1 \<Longrightarrow> extends w (emit ev w1)"
  by (rule extends_trans [OF _ extends_emit])

lemma extends_claimWallets: "extends w w' \<Longrightarrow> claimWallets w' = claimWallets w"
  by (auto simp: extends_def)

lemma saves_append [simp]: "saves (xs @ ys) = saves xs + saves ys"
  by (induction xs rule: saves.induct) simp_all

lemma extends_saves: "extends w w' \<Longrightarrow> saves (trace w) \<le> saves (trace w')"
  by (auto simp: extends_def)

lemma effects_onlyD: "effects_only m \<Longrightarrow> m w = (r, w') \<Longrightarrow> extends w w'"
  by (auto simp: effects_only_def dest: spec [of _ w])

lemma effects_only_return [simp]: "effects_only (return_io x)"
  by (simp add: effects_only_def return_io_def)

lemma effects_only_throw [simp]: "effects_only (throw_io e)"
  by (simp add: effects_only_def throw_io_def)

lemma effects_only_effect [simp]: "effects_only (effect r ev)"
  by (simp add: effects_only_def effect_def split: option.splits)

lemma effects_only_request [simp]: "effects_only (request r ev)"
  by (simp add: effects_only_def request_def)

lemma effects_only_bind [intro]:
  assumes "effects_only m" and "\<And>x. effects_only (f x)"
  shows "effects_only (bind_io m f)"
  unfolding effects_only_def
proof
  fix w
  obtain r w1 where m: "m w = (r, w1)" by (cases "m w")
  have e1: "extends w w1" using effects_onlyD [OF assms(1) m] .
  show "extends w (snd (bind_io m f w))"
  proof (cases r)
    case (Inl e)
    with m e1 show ?thesis by (simp add: bind_io_def)
  next
    case (Inr x)
    obtain r2 w2 where f: "f x w1 = (r2, w2)" by (cases "f x w1")
    have "extends w1 w2" using effects_onlyD [OF assms(2) f] .
    with e1 m Inr f show ?thesis by (simp add: bind_io_def extends_trans)
  qed
qed

lemma effects_only_catch [intro]:
  assumes "effects_only m" and "\<And>e. effects_only (h e)"
  shows "effects_only (catch_io m h)"
  unfolding effects_only_def
proof
  fix w
  obtain r w1 where m: "m w = (r, w1)" by (cases "m w")
  have e1: "extends w w1" using effects_onlyD [OF assms(1) m] .
  show "extends w (snd (catch_io m h w))"
  proof (cases r)
    case (Inr x)
    with m e1 show ?thesis by (simp add: catch_io_def)
  next
    case (Inl e)
    obtain r2 w2 where f: "h e w1 = (r2, w2)" by (cases "h e w1")
    have "extends w1 w2" using effects_onlyD [OF assms(2) f] .
    with e1 m Inl f show ?thesis by (simp add: catch_io_def extends_trans)
  qed
qed

lemma effects_only_if [intro]:
  "effects_only m \<Longrightarrow> effects_only n \<Longrightarrow> effects_only (if b then m else n)"
  by simp

lemma effects_only_primitives [simp]:
  "effects_only rateLimitedDelay"
  "effects_only (console_error s)"
  "effects_only (console_log s)"
  "effects_only (setTimeout ms)"
  "effects_only (provider_getBalance env a)"
  "effects_only (provider_getTransactionCount env a)"
  "effects_only (wallet_sendTransaction env a tx)"
  "effects_only (transaction_wait env h)"
  "effects_only (provider_getTransactionReceipt env h)"
  "effects_only (bot_sendMessage env chatId n)"
  "effects_only (bot_editMessageText env chatId n)"
  "effects_only (bot_deleteMessage env chatId)"
  "effects_only (pool_insert env table row)"
  "effects_only (connection_getBalance env a)"
  "effects_only (connection_getLatestBlockhash env)"
  "effects_only (connection_sendTransaction env a transfers)"
  "effects_only (connection_confirmTransaction env h)"
  "effects_only (connection_getSignatureStatus env h)"
  by (simp_all add: effects_only_def rateLimitedDelay_def console_error_def console_log_def
      setTimeout_def provider_getBalance_def provider_getTransactionCount_def
      wallet_sendTransaction_def transaction_wait_def provider_getTransactionReceipt_def
      bot_sendMessage_def bot_editMessageText_def bot_deleteMessage_def pool_insert_def
      connection_getBalance_def connection_getLatestBlockhash_def
      connection_sendTransaction_def connection_confirmTransaction_def
      connection_getSignatureStatus_def request_def effect_def Let_def split: option.splits)

lemma effects_only_saveWallet [simp]: "effects_only (saveWallet env k cw)"
  by (simp add: effects_only_def saveWallet_def console_error_def Let_def extends_emit'
      split: option.splits)

lemma effects_only_invokeCallback_None [simp]: "effects_only (invokeCallback None t)"
  by (simp add: effects_only_def invokeCallback_def)





subsection \<open>Claim wallets\<close>

lemma sol_checkTransactionStatus_extends:
  "sol_checkTransactionStatus env signature maxRetries i w = (r, w') \<Longrightarrow> extends w w'"
proof (induction "maxRetries - i" arbitrary: i w r w')
  case 0
  then show ?case by (simp add: sol_checkTransactionStatus.simps)
next
  case (Suc n)
  then have lt: "i < maxRetries" by simp
  obtain rq w1 where q: "connection_getSignatureStatus env signature w = (rq, w1)"
    by (cases "connection_getSignatureStatus env signature w")
  have e1: "extends w w1"
    using effects_onlyD [OF effects_only_primitives(18) q] .
  have ih: "sol_checkTransactionStatus env signature maxRetries (Suc i) w2 = (r, w') \<Longrightarrow>
      extends w2 w'" for w2
    using Suc.hyps(1) [of "Suc i" w2 r w'] Suc.hyps(2) by simp
  from Suc.prems show ?case
    apply (subst (asm) sol_checkTransactionStatus.simps)
    using lt q e1
    by (auto split: sum.splits bool.splits if_splits dest!: ih
        intro: extends_trans extends_emit')
qed

lemma effects_only_sol_checkTransactionStatus [simp]:
  "effects_only (sol_checkTransactionStatus env signature maxRetries i)"
  unfolding effects_only_def
proof
  fix w
  show "extends w (snd (sol_checkTransactionStatus env signature maxRetries i w))"
    using sol_checkTransactionStatus_extends [of env signature maxRetries i w]
    by (cases "sol_checkTransactionStatus env signature maxRetries i w") simp
qed

lemma effects_only_confirmOrRecheck [simp]: "effects_only (confirmOrRecheck env signature)"
  unfolding confirmOrRecheck_def
  by (intro effects_only_bind effects_only_catch effects_only_if) simp_all

text \<open>The \<^verbatim>\<open>try\<close> block of \<^verbatim>\<open>/tip\<close> saves the claim wallet once its first message is sent.\<close>

lemma tip_try_saves:
  assumes "e_telegram env (now w) = None"
  shows "saves (trace w) < saves (trace (snd (tip_try env chatId fromId targetUsername amount
            feeAmount sender targetWallet w)))"
proof -
  let ?rest = "\<lambda>u :: unit.
     bind_io (connection_getLatestBlockhash env) (\<lambda>blockhash.
     bind_io (connection_sendTransaction env sender
                [(publicKey targetWallet, amount), (SOL_FEES_WALLET, feeAmount)]) (\<lambda>signature.
     bind_io (confirmOrRecheck env signature) (\<lambda>_.
     bind_io (pool_insert env ''tips''
                \<lparr>from_user_id = fromId, to_username = targetUsername,
                 tip_amount = amount, fee_amount = feeAmount,
                 transaction_signature = signature\<rparr>) (\<lambda>_.
     bind_io (bot_deleteMessage env chatId) (\<lambda>_.
     bot_sendMessage env chatId
       (TipSentSuccessfully amount feeAmount targetUsername signature))))))"
  have rest: "effects_only (?rest u)" for u
    by (intro effects_only_bind) simp_all
  let ?w1 = "emit (SendMessage chatId (ProcessingTip amount feeAmount targetUsername) None) w"
  obtain rs w2 where s: "saveWallet env targetUsername targetWallet ?w1 = (rs, w2)"
    by (cases "saveWallet env targetUsername targetWallet ?w1")
  have rs: "rs = Inr ()" and s2: "saves (trace w2) = Suc (saves (trace w))"
    using s by (auto simp: saveWallet_def console_error_def Let_def split: option.splits)
  obtain r3 w3 where t: "?rest () w2 = (r3, w3)" by (cases "?rest () w2")
  have "extends w2 w3" using effects_onlyD [OF rest t] .
  then have "saves (trace w2) \<le> saves (trace w3)" by (rule extends_saves)
  moreover have "tip_try env chatId fromId targetUsername amount feeAmount sender targetWallet w
      = (r3, w3)"
    using assms s rs t
    by (simp add: tip_try_def bind_io_def bot_sendMessage_def effect_def Let_def)
  ultimately show ?thesis using s2 by simp
qed

lemma resolveClaimWallet_present:
  "claimWallets w k = Some cw \<Longrightarrow> resolveClaimWallet env u k w = (Inr cw, w)"
  by (simp add: resolveClaimWallet_def)

lemma resolveClaimWallet_absent:
  assumes "claimWallets w k = None"
  shows "\<exists>cw w1. resolveClaimWallet env u k w = (Inr cw, w1)
           \<and> claimWallets w1 k = Some cw \<and> saves (trace w1) = Suc (saves (trace w))"
  using assms
  by (simp add: resolveClaimWallet_def saveWallet_def bind_io_def return_io_def
      console_error_def Let_def emit_def split: option.splits)

text \<open>
  Claim C7, amended. Resolving the claim wallet of a username twice gives the same
  wallet, hence the same address, both times. In the Monad bot the second resolution
  changes nothing, and the two together write the wallet to the database exactly once
  when the username had no claim wallet, and not at all when it had one. In the
  Solana bot the resolution itself writes nothing and every \<^verbatim>\<open>/tip\<close> saves the wallet
  after its first message.
\<close>

theorem claim_wallet_resolution_idempotent:
  "(resolveClaimWallet env u1 k w = (r1, w1) \<and> resolveClaimWallet env u2 k w1 = (r2, w2) \<longrightarrow>
      (\<exists>cw. r1 = Inr cw \<and> r2 = Inr cw) \<and> w2 = w1
      \<and> saves (trace w2) = saves (trace w) + (if claimWallets w k = None then 1 else 0))
   \<and> (tip_resolveClaimWallet env u1 k a1 w = (r1', w1')
       \<and> tip_resolveClaimWallet env u2 k a2 w1' = (r2', w2') \<longrightarrow>
      (\<exists>cw cw'. r1' = Inr cw \<and> r2' = Inr cw' \<and> publicKey cw' = publicKey cw)
      \<and> saves (trace w2') = saves (trace w))
   \<and> (e_telegram env (now w) = None \<longrightarrow>
      saves (trace w) < saves (trace (snd (tip_try env chatId u1 k a1 fee sender cw0 w))))"
proof -
  have monad: "(\<exists>cw. r1 = Inr cw \<and> r2 = Inr cw) \<and> w2 = w1
      \<and> saves (trace w2) = saves (trace w) + (if claimWallets w k = None then 1 else 0)"
    if a: "resolveClaimWallet env u1 k w = (r1, w1)"
      and b: "resolveClaimWallet env u2 k w1 = (r2, w2)"
  proof (cases "claimWallets w k")
    case None
    from resolveClaimWallet_absent [OF None, of env u1] a
    obtain cw where "r1 = Inr cw" "claimWallets w1 k = Some cw"
      "saves (trace w1) = Suc (saves (trace w))" by auto
    with b None show ?thesis by (auto simp: resolveClaimWallet_present)
  next
    case (Some cw)
    with a b show ?thesis by (auto simp: resolveClaimWallet_present)
  qed
  have solana: "(\<exists>cw cw'. r1' = Inr cw \<and> r2' = Inr cw' \<and> publicKey cw' = publicKey cw)
      \<and> saves (trace w2') = saves (trace w)"
    if "tip_resolveClaimWallet env u1 k a1 w = (r1', w1')"
      and "tip_resolveClaimWallet env u2 k a2 w1' = (r2', w2')"
    using that
    by (auto simp: tip_resolveClaimWallet_def Let_def emit_def split: option.splits)
  show ?thesis
    using monad solana tip_try_saves [of env w chatId u1 k a1 fee sender cw0] by blast
qed

theorem claim_wallet_resolution_idempotent_witness:
  "resolveClaimWallet example_env ''42'' ''bob'' example_world
     = (Inr new_claim_wallet, resolved_world)
   \<and> resolveClaimWallet example_env ''43'' ''bob'' resolved_world
     = (Inr new_claim_wallet, resolved_world)
   \<and> claimWallets example_world ''bob'' = None
   \<and> saves (trace resolved_world) = saves (trace example_world) + 1
   \<and> tip_resolveClaimWallet example_env ''42'' ''bob'' 10 example_world
     = (Inr (new_claim_wallet\<lparr>accrued := 10\<rparr>),
        example_world
          \<lparr>trace := [CreateRandom \<lparr>uw_privateKey = ''kc'', uw_publicKey = ''0xc''\<rparr>],
           claimWallets := [''bob'' \<mapsto> new_claim_wallet\<lparr>accrued := 10\<rparr>]\<rparr>)
   \<and> tip_resolveClaimWallet example_env ''43'' ''bob'' 5
        (example_world
          \<lparr>trace := [CreateRandom \<lparr>uw_privateKey = ''kc'', uw_publicKey = ''0xc''\<rparr>],
           claimWallets := [''bob'' \<mapsto> new_claim_wallet\<lparr>accrued := 10\<rparr>]\<rparr>)
     = (Inr (new_claim_wallet\<lparr>accrued := 15\<rparr>),
        example_world
          \<lparr>trace := [CreateRandom \<lparr>uw_privateKey = ''kc'', uw_publicKey = ''0xc''\<rparr>],
           claimWallets := [''bob'' \<mapsto> new_claim_wallet\<lparr>accrued := 15\<rparr>]\<rparr>)
   \<and> e_telegram example_env (now example_world) = None
   \<and> saves (trace example_world)
       < saves (trace (snd (tip_try example_env 1 ''42'' ''bob'' 10 1 ''0xa''
            (new_claim_wallet\<lparr>accrued := 10\<rparr>) example_world)))"
proof -
  have a: "resolveClaimWallet example_env ''42'' ''bob'' example_world
     = (Inr new_claim_wallet, resolved_world)"
    by (simp add: resolveClaimWallet_def saveWallet_def bind_io_def return_io_def Let_def
        emit_def now_def example_world_def example_env_def new_claim_wallet_def
        resolved_world_def)
  have b: "resolveClaimWallet example_env ''43'' ''bob'' resolved_world
     = (Inr new_claim_wallet, resolved_world)"
    by (simp add: resolveClaimWallet_def resolved_world_def)
  have c: "tip_resolveClaimWallet example_env ''42'' ''bob'' 10 example_world
     = (Inr (new_claim_wallet\<lparr>accrued := 10\<rparr>),
        example_world
          \<lparr>trace := [CreateRandom \<lparr>uw_privateKey = ''kc'', uw_publicKey = ''0xc''\<rparr>],
           claimWallets := [''bob'' \<mapsto> new_claim_wallet\<lparr>accrued := 10\<rparr>]\<rparr>)"
    by (simp add: tip_resolveClaimWallet_def Let_def emit_def now_def example_world_def
        example_env_def new_claim_wallet_def)
  have d: "tip_resolveClaimWallet example_env ''43'' ''bob'' 5
        (example_world
          \<lparr>trace := [CreateRandom \<lparr>uw_privateKey = ''kc'', uw_publicKey = ''0xc''\<rparr>],
           claimWallets := [''bob'' \<mapsto> new_claim_wallet\<lparr>accrued := 10\<rparr>]\<rparr>)
     = (Inr (new_claim_wallet\<lparr>accrued := 15\<rparr>),
        example_world
          \<lparr>trace := [CreateRandom \<lparr>uw_privateKey = ''kc'', uw_publicKey = ''0xc''\<rparr>],
           claimWallets := [''bob'' \<mapsto> new_claim_wallet\<lparr>accrued := 15\<rparr>]\<rparr>)"
    by (simp add: tip_resolveClaimWallet_def Let_def example_world_def new_claim_wallet_def)
  have e: "e_telegram example_env (now example_world) = None"
    by (simp add: example_env_def)
  have f: "claimWallets example_world ''bob'' = None"
    by (simp add: example_world_def)
  show ?thesis
    using claim_wallet_resolution_idempotent [where env = example_env and w = example_world
        and k = "''bob''" and ?u1.0 = "''42''" and ?u2.0 = "''43''"
        and ?r1.0 = "Inr new_claim_wallet" and ?w1.0 = resolved_world
        and ?r2.0 = "Inr new_claim_wallet" and ?w2.0 = resolved_world
        and chatId = 1 and ?a1.0 = 10 and fee = 1 and sender = "''0xa''"
        and ?cw0.0 = "new_claim_wallet\<lparr>accrued := 10\<rparr>"]
      a b c d e f
    by simp
qed

text \<open>
  Claim C7, as stated, fails on the Solana bot: two tips to the same new username
  resolve to the same address, and write the claim wallet to the database twice.
\<close>

theorem tip_saves_claim_wallet_every_time:
  "map_option publicKey
      (claimWallets (snd (tip_handler example_env 1 ''42'' ''bob'' (Some 10) example_world))
         ''bob'') = Some ''0xc''
   \<and> map_option publicKey
      (claimWallets (snd (tip_handler example_env 1 ''42'' ''bob'' (Some 10)
         (snd (tip_handler example_env 1 ''42'' ''bob'' (Some 10) example_world)))) ''bob'')
      = Some ''0xc''
   \<and> saves (trace (snd (tip_handler example_env 1 ''42'' ''bob'' (Some 10)
         (snd (tip_handler example_env 1 ''42'' ''bob'' (Some 10) example_world))))) = 2"
  by code_simp

subsection \<open>Settlement by \<^verbatim>\<open>/pay\<close>\<close>





subsection \<open>Accrual and records\<close>

lemma inserts_append [simp]: "inserts (xs @ ys) = inserts xs @ inserts ys"
  by (induction xs rule: inserts.induct) simp_all

text \<open>
  The end of a settlement by \<^verbatim>\<open>/pay\<close>, after both transfers: the accrual grows by the
  amount, and one row, with the fee computed from the amount, is sent to the table
  \<^verbatim>\<open>payments\<close>.
\<close>

lemma pay_bookkeeping_records:
  assumes "pay_bookkeeping env chatId userId recipientUsername amount fee recipientWallet
             (Some h) w = (r, w')"
  shows "claimWallets w' recipientUsername
           = Some (recipientWallet\<lparr>accrued := accrued recipientWallet + amount\<rparr>)
         \<and> inserts (trace w') = inserts (trace w) @
             [(''payments'', \<lparr>from_user_id = userId, to_username = recipientUsername,
                 tip_amount = amount, fee_amount = fee, transaction_signature = h\<rparr>)]"
  using assms
  by (auto simp: pay_bookkeeping_def saveWallet_def pool_insert_def bot_sendMessage_def
      hash_of_def io_defs Let_def emit_def split: option.splits)

text \<open>
  Claim C3 fails on the \<^verbatim>\<open>/tip\<close> handler of the Solana bot. The recipient has accrued
  3; a tip of 10 is refused by the chain at submission. The accrual is 13 afterwards,
  in memory and in the row saved to the database, and no record is written.
\<close>

theorem failed_tip_still_accrues:
  "map_option accrued (claimWallets busy_world ''bob'') = Some 3
   \<and> map_option accrued
       (claimWallets (snd (tip_handler submit_fails_env 1 ''42'' ''bob'' (Some 10) busy_world))
          ''bob'') = Some 13
   \<and> trace (snd (tip_handler submit_fails_env 1 ''42'' ''bob'' (Some 10) busy_world)) =
       [SolGetBalance ''0xa'' (Inr 100),
        SendMessage 1 (ProcessingTip 10 1 ''bob'') None,
        SaveClaimWallet ''bob'' (example_claim_wallet\<lparr>accrued := 13\<rparr>) None,
        SolGetLatestBlockhash (Inr ''blockhash''),
        SolSendTransaction ''0xa'' [(''0xc'', 10), (SOL_FEES_WALLET, 1)]
          (Inl (Error ''Blockhash not found'')),
        ConsoleError ''Transfer error:'']"
  by code_simp

subsection \<open>Confirmation and the status of a transaction\<close>

text \<open>
  In the Solana bot a failed or timed out wait for confirmation is followed by a
  query of the status; when that shows the transaction confirmed, the flow goes on
  as after a confirmation.
\<close>

lemma confirmOrRecheck_confirmed:
  assumes "e_confirmTransaction env (now w) signature = Inl error"
    and "e_getSignatureStatus env (Suc (now w)) signature = Inr True"
  shows "confirmOrRecheck env signature w =
     (Inr (), w\<lparr>trace := trace w @
        [SolConfirmTransaction signature (Inl error),
         SolGetSignatureStatus signature (Inr True)]\<rparr>)"
  using assms
  by (simp add: confirmOrRecheck_def connection_confirmTransaction_def
      connection_getSignatureStatus_def sol_checkTransactionStatus.simps [of _ _ 3 0]
      io_defs Let_def emit_def now_def)

text \<open>
  Claim C5 fails on the Monad bot. In its transfer-all flow the transaction is
  submitted and the wait for confirmation fails with a timeout. The flow reports the
  failure to the user at once: the status of the transaction is never queried,
  though the chain would have answered that it is confirmed, and the accrual is not
  reset.
\<close>

theorem wait_failure_reported_without_recheck:
  "e_getTransactionReceipt wait_fails_env 8 ''0xtip'' = Inr True
   \<and> transfer_all_handler wait_fails_env 1 ''42'' ''bob'' busy_world =
     (Inr (),
      busy_world\<lparr>trace :=
        [RateLimitedDelay, GetBalance ''0xc'' (Inr 100), RateLimitedDelay,
         EstimateGas ''0xc'' ''0xa'' 100 (Inr 21000), RateLimitedDelay,
         GetFeeData (Inr (1 / 1000000000)),
         SendTransaction ''0xc''
           \<lparr>tx_to = ''0xa'', tx_amount = 99999969 / 1000000, tx_nonce = None\<rparr>
           (Inr ''0xtip''),
         WaitTransaction ''0xtip'' (Some (Error ''timeout'')),
         ConsoleError ''Transfer error:'',
         SendMessage 1 (TransferFailed ''timeout'') None]\<rparr>)"
  by (simp add: transfer_all_handler_def drainTo_def resolveUserWallet_def
      getWalletBalance_def provider_getBalance_def provider_estimateGas_def
      provider_getFeeData_def wallet_sendTransaction_def transaction_wait_def
      bot_sendMessage_def io_defs Let_def emit_def now_def wait_fails_env_def example_env_def
      busy_world_def example_world_def example_wallet_def example_claim_wallet_def
      NETWORK_FEE_def FEES_WALLET_def)

subsection \<open>The discipline of nonces\<close>

lemma check_events_append:
  "check_events F s (xs @ ys) =
     (case check_events F s xs of None \<Rightarrow> None | Some s' \<Rightarrow> check_events F s' ys)"
  by (induction xs arbitrary: s) (auto split: option.splits)

lemma check_event_neutral: "neutral ev \<Longrightarrow> check_event F s ev = Some s"
  by (cases ev) simp_all

lemma check_events_neutral: "list_all neutral evs \<Longrightarrow> check_events F s evs = Some s"
  by (induction evs) (simp_all add: check_event_neutral)

lemma passes_refl [simp]: "passes F s w w s"
  by (simp add: passes_def)

lemma passes_trans: "passes F s w w1 s1 \<Longrightarrow> passes F s1 w1 w2 s2 \<Longrightarrow> passes F s w w2 s2"
  by (auto simp: passes_def check_events_append)

lemma passes_emit: "check_event F s ev = Some s' \<Longrightarrow> passes F s w (emit ev w) s'"
  by (simp add: passes_def emit_def)

lemma passes_quiet:
  assumes "quiet m" and "m w = (r, w')"
  shows "passes F s w w' s"
proof -
  from assms(1) obtain evs where "trace (snd (m w)) = trace w @ evs" "list_all neutral evs"
    unfolding quiet_def by blast
  with assms(2) show ?thesis
    by (auto simp: passes_def check_events_neutral)
qed

lemma quiet_emit: "neutral ev \<Longrightarrow> quiet (\<lambda>w. (r, emit ev w))"
  by (simp add: quiet_def emit_def)

lemma quiet_return [simp]: "quiet (return_io x)"
  by (simp add: quiet_def return_io_def)

lemma quiet_throw [simp]: "quiet (throw_io e)"
  by (simp add: quiet_def throw_io_def)

lemma quiet_bind:
  assumes "quiet m" and "\<And>x. quiet (f x)"
  shows "quiet (bind_io m f)"
  unfolding quiet_def
proof
  fix w
  obtain r w1 where m: "m w = (r, w1)" by (cases "m w")
  from assms(1) m obtain evs1 where e1: "trace w1 = trace w @ evs1" "list_all neutral evs1"
    unfolding quiet_def by (metis snd_conv)
  show "\<exists>evs. trace (snd (bind_io m f w)) = trace w @ evs \<and> list_all neutral evs"
  proof (cases r)
    case (Inl e)
    with m e1 show ?thesis by (auto simp: bind_io_def)
  next
    case (Inr x)
    from assms(2) [of x] obtain evs2 where
      "trace (snd (f x w1)) = trace w1 @ evs2" "list_all neutral evs2"
      unfolding quiet_def by blast
    with m e1 Inr show ?thesis by (auto simp: bind_io_def)
  qed
qed

lemma quiet_catch:
  assumes "quiet m" and "\<And>e. quiet (h e)"
  shows "quiet (catch_io m h)"
  unfolding quiet_def
proof
  fix w
  obtain r w1 where m: "m w = (r, w1)" by (cases "m w")
  from assms(1) m obtain evs1 where e1: "trace w1 = trace w @ evs1" "list_all neutral evs1"
    unfolding quiet_def by (metis snd_conv)
  show "\<exists>evs. trace (snd (catch_io m h w)) = trace w @ evs \<and> list_all neutral evs"
  proof (cases r)
    case (Inr x)
    with m e1 show ?thesis by (auto simp: catch_io_def)
  next
    case (Inl e)
    from assms(2) [of e] obtain evs2 where
      "trace (snd (h e w1)) = trace w1 @ evs2" "list_all neutral evs2"
      unfolding quiet_def by blast
    with m e1 Inl show ?thesis by (auto simp: catch_io_def)
  qed
qed

lemma quiet_primitives [simp]:
  "quiet rateLimitedDelay"
  "quiet (console_error s)"
  "quiet (console_log s)"
  "quiet (setTimeout ms)"
  "quiet (bot_sendMessage env chatId n)"
  "quiet (bot_editMessageText env chatId n)"
  "quiet (pool_insert env table row)"
  "quiet (saveWallet env k cw)"
  "quiet (hash_of transaction)"
  by (simp_all add: quiet_def rateLimitedDelay_def console_error_def console_log_def
      setTimeout_def bot_sendMessage_def bot_editMessageText_def pool_insert_def
      saveWallet_def hash_of_def effect_def throw_io_def return_io_def Let_def emit_def
      split: option.splits)

lemma quiet_setStatus [simp]: "quiet (setStatus env chatId changes)"
proof -
  have u: "quiet (updateStatusMessage env chatId)"
    unfolding updateStatusMessage_def [abs_def] quiet_def
    by (auto simp: catch_io_def bot_editMessageText_def effect_def return_io_def
        console_error_def Let_def emit_def split: option.splits)
  show ?thesis
    unfolding quiet_def setStatus_def
  proof
    fix w
    from u obtain evs where
      "trace (snd (updateStatusMessage env chatId (w\<lparr>status := changes (status w)\<rparr>)))
         = trace (w\<lparr>status := changes (status w)\<rparr>) @ evs" "list_all neutral evs"
      unfolding quiet_def by blast
    then show "\<exists>evs. trace (snd (updateStatusMessage env chatId
        (w\<lparr>status := changes (status w)\<rparr>))) = trace w @ evs \<and> list_all neutral evs"
      by auto
  qed
qed

lemma quiet_invokeCallback:
  assumes "\<And>cb. callback = Some cb \<Longrightarrow> quiet (cb t)"
  shows "quiet (invokeCallback callback t)"
proof (cases callback)
  case None
  then show ?thesis by (simp add: quiet_def invokeCallback_def)
next
  case (Some cb)
  have q: "quiet (cb t)" using assms Some by simp
  show ?thesis
    unfolding quiet_def
  proof
    fix w
    from q obtain evs where e: "trace (snd (cb t w)) = trace w @ evs" "list_all neutral evs"
      unfolding quiet_def by blast
    then show "\<exists>evs. trace (snd (invokeCallback callback t w)) = trace w @ evs
        \<and> list_all neutral evs"
      using Some
      by (cases "cb t w")
        (auto simp: invokeCallback_def console_error_def emit_def split: sum.splits)
  qed
qed

lemma quiet_no_callbacks [simp]: "quiet_callbacks no_callbacks"
  by (auto simp: quiet_callbacks_def no_callbacks_def intro!: quiet_invokeCallback)

lemma quiet_pay_callbacks [simp]: "quiet_callbacks (pay_callbacks env chatId)"
  by (auto simp: quiet_callbacks_def pay_callbacks_def intro!: quiet_invokeCallback)

text \<open>One iteration of the executor, seen by the check.\<close>

lemma attempt_passes:
  assumes q: "quiet_callbacks cbs"
    and run: "attempt env wallet cbs tx w = (r, w')"
    and fresh: "ns_fresh s = Some (n, asked_after)" "tx_nonce tx = Some n"
    and fee: "tx_to tx = F \<Longrightarrow> asked_after"
  shows "\<exists>s'. passes F s w w' s' \<and> ns_fresh s' = None
           \<and> (ns_confirmed s \<longrightarrow> ns_confirmed s')
           \<and> ((\<exists>t. r = Inr t) \<and> tx_to tx \<noteq> F \<longrightarrow> ns_confirmed s')"
proof -
  let ?w1 = "emit RateLimitedDelay w"
  let ?r1 = "e_sendTransaction env (now ?w1) wallet tx"
  let ?w2 = "emit (SendTransaction wallet tx ?r1) ?w1"
  let ?s2 = "s\<lparr>ns_fresh := None,
                ns_pending := (if tx_to tx = F then ns_pending s
                               else (case ?r1 of Inr h \<Rightarrow> Some h | Inl e \<Rightarrow> None))\<rparr>"
  have p1: "passes F s w ?w1 s" by (rule passes_emit) simp
  have p2: "passes F s ?w1 ?w2 ?s2"
    using fresh fee by (intro passes_emit) auto
  have p12: "passes F s w ?w2 ?s2" using passes_trans [OF p1 p2] .
  show ?thesis
  proof (cases ?r1)
    case (Inl e)
    then have "attempt env wallet cbs tx w = (Inl e, ?w2)"
      by (simp add: attempt_def bind_io_def rateLimitedDelay_def wallet_sendTransaction_def
          request_def Let_def)
    with run p12 show ?thesis by auto
  next
    case (Inr h)
    obtain r3 w3 where c1: "invokeCallback (onSent cbs) h ?w2 = (r3, w3)"
      by (cases "invokeCallback (onSent cbs) h ?w2")
    have p3: "passes F ?s2 ?w2 w3 ?s2"
      using passes_quiet [where m = "invokeCallback (onSent cbs) h", OF _ c1] q by (simp add: quiet_callbacks_def)
    let ?w4 = "emit RateLimitedDelay w3"
    have p4: "passes F ?s2 w3 ?w4 ?s2" by (rule passes_emit) simp
    obtain r5 w5 where c2: "invokeCallback (onConfirming cbs) h ?w4 = (r5, w5)"
      by (cases "invokeCallback (onConfirming cbs) h ?w4")
    have p5: "passes F ?s2 ?w4 w5 ?s2"
      using passes_quiet [where m = "invokeCallback (onConfirming cbs) h", OF _ c2] q by (simp add: quiet_callbacks_def)
    let ?r6 = "e_wait env (now w5) h"
    let ?w6 = "emit (WaitTransaction h ?r6) w5"
    let ?s6 = "if ?r6 = None \<and> ns_pending ?s2 = Some h then ?s2\<lparr>ns_confirmed := True\<rparr> else ?s2"
    have p6: "passes F ?s2 w5 ?w6 ?s6" by (rule passes_emit) simp
    have p16: "passes F s w ?w6 ?s6"
      using passes_trans [OF passes_trans [OF passes_trans [OF passes_trans [OF p12 p3] p4] p5] p6] .
    have r3: "r3 = Inr ()" and r5: "r5 = Inr ()"
      using c1 c2
      by (auto simp: invokeCallback_def console_error_def split: option.splits prod.splits sum.splits)
    show ?thesis
    proof (cases ?r6)
      case (Some e)
      then have "attempt env wallet cbs tx w = (Inl e, ?w6)"
        using Inr c1 c2 r3 r5
        by (simp add: attempt_def bind_io_def rateLimitedDelay_def wallet_sendTransaction_def
            transaction_wait_def request_def effect_def Let_def)
      with run p16 Some show ?thesis by auto
    next
      case None
      obtain r7 w7 where c3: "invokeCallback (onConfirmed cbs) h ?w6 = (r7, w7)"
        by (cases "invokeCallback (onConfirmed cbs) h ?w6")
      have p7: "passes F ?s6 ?w6 w7 ?s6"
        using passes_quiet [where m = "invokeCallback (onConfirmed cbs) h", OF _ c3] q by (simp add: quiet_callbacks_def)
      have r7: "r7 = Inr ()"
        using c3
        by (auto simp: invokeCallback_def console_error_def split: option.splits prod.splits sum.splits)
      have "attempt env wallet cbs tx w = (Inr h, w7)"
        using Inr None c1 c2 c3 r3 r5 r7
        by (simp add: attempt_def bind_io_def rateLimitedDelay_def wallet_sendTransaction_def
            transaction_wait_def request_def effect_def return_io_def Let_def)
      with run passes_trans [OF p16 p7] None Inr show ?thesis by auto
    qed
  qed
qed

lemma refreshNonce_passes:
  assumes "refreshNonce env wallet w = (r, w')"
  shows "\<exists>s'. passes F s w w' s' \<and> ns_confirmed s' = ns_confirmed s
           \<and> (\<forall>n. r = Inr n \<longrightarrow> ns_fresh s' = Some (n, ns_confirmed s))"
proof -
  let ?w3 = "emit RateLimitedDelay (emit (Sleep 2000)
               (emit (ConsoleLog ''Error detected, retrying...'') w))"
  have p3: "passes F s w ?w3 s"
    by (intro passes_trans [OF passes_trans [OF passes_emit passes_emit] passes_emit]) simp_all
  let ?s' = "s\<lparr>ns_fresh := (case r of Inr n \<Rightarrow> Some (n, ns_confirmed s) | Inl e \<Rightarrow> None)\<rparr>"
  from assms have r: "r = e_getTransactionCount env (now ?w3) wallet"
    and w': "w' = emit (GetTransactionCount wallet r) ?w3"
    by (auto simp: refreshNonce_eq Let_def)
  have "passes F s ?w3 w' ?s'"
    unfolding w' by (rule passes_emit) simp
  from passes_trans [OF p3 this] show ?thesis
    by (intro exI [of _ ?s']) simp
qed

lemma retryLoop_returns_transaction:
  "i < maxRetries \<Longrightarrow> retryLoop env wallet cbs maxRetries i tx w = (Inr x, w') \<Longrightarrow> x \<noteq> None"
proof (induction "maxRetries - i" arbitrary: i tx w)
  case 0
  then show ?case by simp
next
  case (Suc k)
  obtain ra w1 where a: "attempt env wallet cbs tx w = (ra, w1)"
    by (cases "attempt env wallet cbs tx w")
  have ih: "retryLoop env wallet cbs maxRetries (Suc i) tx' w2 = (Inr x, w') \<Longrightarrow> x \<noteq> None"
    if "i \<noteq> maxRetries - Suc 0" for tx' w2
    using Suc.hyps(1) [of "Suc i" tx' w2] Suc.hyps(2) Suc.prems(1) that by simp
  from Suc.prems(2) show ?case
    unfolding retryLoop_unfold [OF Suc.prems(1) a]
    by (auto split: sum.splits if_splits prod.splits dest: ih)
qed

text \<open>The executor, seen by the check, from a state that holds the nonce of its request.\<close>

lemma retryLoop_passes:
  assumes q: "quiet_callbacks cbs"
  shows "retryLoop env wallet cbs maxRetries i tx w = (r, w') \<Longrightarrow>
         ns_fresh s = Some (n, asked_after) \<Longrightarrow> tx_nonce tx = Some n \<Longrightarrow>
         (tx_to tx = F \<longrightarrow> asked_after \<and> ns_confirmed s) \<Longrightarrow>
         \<exists>s'. passes F s w w' s' \<and> (ns_confirmed s \<longrightarrow> ns_confirmed s')
              \<and> ((\<exists>t. r = Inr (Some t)) \<and> tx_to tx \<noteq> F \<longrightarrow> ns_confirmed s')"
proof (induction "maxRetries - i" arbitrary: i tx w s n asked_after)
  case 0
  then have "r = Inr None" "w' = w" by (simp_all add: retryLoop_done)
  then show ?case by (auto intro: exI [of _ s])
next
  case (Suc k)
  then have lt: "i < maxRetries" by simp
  obtain ra w1 where a: "attempt env wallet cbs tx w = (ra, w1)"
    by (cases "attempt env wallet cbs tx w")
  from attempt_passes [OF q a Suc.prems(2) Suc.prems(3), of F] Suc.prems(4)
  obtain s1 where s1: "passes F s w w1 s1" "ns_fresh s1 = None"
    "ns_confirmed s \<longrightarrow> ns_confirmed s1"
    "(\<exists>t. ra = Inr t) \<and> tx_to tx \<noteq> F \<longrightarrow> ns_confirmed s1"
    by auto
  show ?case
  proof (cases ra)
    case (Inr t)
    with Suc.prems(1) have "r = Inr (Some t)" "w' = w1"
      unfolding retryLoop_unfold [OF lt a] by simp_all
    with s1 Inr show ?thesis by auto
  next
    case (Inl error)
    show ?thesis
    proof (cases "i = maxRetries - 1 \<or> \<not> isRetryable error")
      case True
      with Suc.prems(1) Inl have "r = Inl error" "w' = w1"
        unfolding retryLoop_unfold [OF lt a] by simp_all
      with s1 show ?thesis by auto
    next
      case False
      obtain rn w2 where rn: "refreshNonce env wallet w1 = (rn, w2)"
        by (cases "refreshNonce env wallet w1")
      from refreshNonce_passes [OF rn, of F s1]
      obtain s2 where s2: "passes F s1 w1 w2 s2" "ns_confirmed s2 = ns_confirmed s1"
        "\<forall>m. rn = Inr m \<longrightarrow> ns_fresh s2 = Some (m, ns_confirmed s1)"
        by auto
      have p2: "passes F s w w2 s2" using passes_trans [OF s1(1) s2(1)] .
      show ?thesis
      proof (cases rn)
        case (Inl e)
        with Suc.prems(1) \<open>ra = Inl error\<close> False rn have "r = Inl e" "w' = w2"
          unfolding retryLoop_unfold [OF lt a] by simp_all
        with p2 s1 s2 show ?thesis by auto
      next
        case (Inr newNonce)
        with Suc.prems(1) \<open>ra = Inl error\<close> False rn
        have rec: "retryLoop env wallet cbs maxRetries (Suc i)
                     (tx\<lparr>tx_nonce := Some newNonce\<rparr>) w2 = (r, w')"
          unfolding retryLoop_unfold [OF lt a] by simp
        have k: "k = maxRetries - Suc i" using Suc.hyps(2) by simp
        have f2: "ns_fresh s2 = Some (newNonce, ns_confirmed s1)" using s2(3) Inr by simp
        have c2: "tx_to (tx\<lparr>tx_nonce := Some newNonce\<rparr>) = F \<longrightarrow>
                    ns_confirmed s1 \<and> ns_confirmed s2"
          using Suc.prems(4) s1(3) s2(2) by simp
        from Suc.hyps(1) [OF k rec f2 _ c2]
        obtain s3 where s3: "passes F s2 w2 w' s3" "ns_confirmed s2 \<longrightarrow> ns_confirmed s3"
          "(\<exists>t. r = Inr (Some t)) \<and> tx_to tx \<noteq> F \<longrightarrow> ns_confirmed s3"
          by auto
        from passes_trans [OF p2 s3(1)] s1 s2 s3 show ?thesis by auto
      qed
    qed
  qed
qed

lemma quiet_pay_bookkeeping:
  "pay_bookkeeping env chatId userId recipientUsername amount fee recipientWallet transaction w
     = (r, w') \<Longrightarrow> passes F s w w' s"
proof -
  let ?updated = "recipientWallet\<lparr>accrued := accrued recipientWallet + amount\<rparr>"
  let ?w1 = "w\<lparr>claimWallets := (claimWallets w)(recipientUsername \<mapsto> ?updated)\<rparr>"
  let ?m = "bind_io (saveWallet env recipientUsername ?updated) (\<lambda>_.
         bind_io (hash_of transaction) (\<lambda>h.
         bind_io (pool_insert env ''payments''
                    \<lparr>from_user_id = userId, to_username = recipientUsername,
                     tip_amount = amount, fee_amount = fee, transaction_signature = h\<rparr>) (\<lambda>_.
         bot_sendMessage env chatId
           (PaymentSentSuccessfully amount fee recipientUsername h))))"
  assume run: "pay_bookkeeping env chatId userId recipientUsername amount fee recipientWallet
     transaction w = (r, w')"
  have "quiet ?m" by (intro quiet_bind) simp_all
  moreover have "?m ?w1 = (r, w')"
    using run by (simp add: pay_bookkeeping_def Let_def)
  ultimately have "passes F s ?w1 w' s" by (rule passes_quiet)
  then show ?thesis by (simp add: passes_def)
qed

lemma count_passes:
  "passes F s w
     (emit (GetTransactionCount a (e_getTransactionCount env (Suc (now w)) a))
        (emit RateLimitedDelay w))
     (s\<lparr>ns_fresh := (case e_getTransactionCount env (Suc (now w)) a of
                        Inr n \<Rightarrow> Some (n, ns_confirmed s) | Inl e \<Rightarrow> None)\<rparr>)"
  by (intro passes_trans [OF passes_emit passes_emit]) simp_all

lemma pay_after_principal_passes:
  assumes run: "pay_after_principal env chatId userId recipientUsername amount fee sender
                  recipientWallet transaction w = (r, w')"
    and c: "ns_confirmed s"
  shows "\<exists>s'. passes FEES_WALLET s w w' s'"
proof -
  let ?r1 = "e_getTransactionCount env (Suc (now w)) sender"
  let ?w2 = "emit (GetTransactionCount sender ?r1) (emit RateLimitedDelay w)"
  let ?s2 = "s\<lparr>ns_fresh := (case ?r1 of Inr n \<Rightarrow> Some (n, ns_confirmed s) | Inl e \<Rightarrow> None)\<rparr>"
  have p2: "passes FEES_WALLET s w ?w2 ?s2" by (rule count_passes)
  show ?thesis
  proof (cases ?r1)
    case (Inl e)
    with run have "w' = ?w2"
      by (simp add: pay_after_principal_def bind_io_def rateLimitedDelay_def
          provider_getTransactionCount_def request_def Let_def)
    with p2 show ?thesis by auto
  next
    case (Inr feeNonce)
    let ?tx = "\<lparr>tx_to = FEES_WALLET, tx_amount = fee, tx_nonce = Some feeNonce\<rparr>"
    obtain rf w3 where f: "retryLoop env sender no_callbacks 3 0 ?tx ?w2 = (rf, w3)"
      by (cases "retryLoop env sender no_callbacks 3 0 ?tx ?w2")
    have "ns_fresh ?s2 = Some (feeNonce, True)" using Inr c by simp
    from retryLoop_passes [OF quiet_no_callbacks f this, of FEES_WALLET] c
    obtain s3 where s3: "passes FEES_WALLET ?s2 ?w2 w3 s3" by auto
    have p3: "passes FEES_WALLET s w w3 s3" using passes_trans [OF p2 s3] .
    show ?thesis
    proof (cases rf)
      case (Inl e)
      with run Inr f have "w' = w3"
        by (simp add: pay_after_principal_def bind_io_def rateLimitedDelay_def
            provider_getTransactionCount_def request_def Let_def sendTransactionWithRetry_def)
      with p3 show ?thesis by auto
    next
      case (Inr feeTransaction)
      with run \<open>?r1 = Inr feeNonce\<close> f
      have "pay_bookkeeping env chatId userId recipientUsername amount fee recipientWallet
              transaction w3 = (r, w')"
        by (simp add: pay_after_principal_def bind_io_def rateLimitedDelay_def
            provider_getTransactionCount_def request_def Let_def sendTransactionWithRetry_def)
      from passes_trans [OF p3 quiet_pay_bookkeeping [OF this]] show ?thesis by auto
    qed
  qed
qed

lemma pay_transfers_passes:
  assumes run: "pay_transfers env chatId userId recipientUsername amount fee sender
                  recipientWallet w = (r, w')"
    and other: "publicKey recipientWallet \<noteq> FEES_WALLET"
  shows "\<exists>s'. passes FEES_WALLET nonce_start w w' s'"
proof -
  let ?r1 = "e_getTransactionCount env (Suc (now w)) sender"
  let ?w2 = "emit (GetTransactionCount sender ?r1) (emit RateLimitedDelay w)"
  let ?s2 = "nonce_start\<lparr>ns_fresh := (case ?r1 of Inr n \<Rightarrow> Some (n, ns_confirmed nonce_start)
                                          | Inl e \<Rightarrow> None)\<rparr>"
  have p2: "passes FEES_WALLET nonce_start w ?w2 ?s2" by (rule count_passes)
  show ?thesis
  proof (cases ?r1)
    case (Inl e)
    with run have "w' = ?w2"
      by (simp add: pay_transfers_def bind_io_def rateLimitedDelay_def
          provider_getTransactionCount_def request_def Let_def)
    with p2 show ?thesis by auto
  next
    case (Inr nonce)
    let ?tx = "\<lparr>tx_to = publicKey recipientWallet, tx_amount = amount, tx_nonce = Some nonce\<rparr>"
    obtain rp w3 where f: "retryLoop env sender (pay_callbacks env chatId) 3 0 ?tx ?w2 = (rp, w3)"
      by (cases "retryLoop env sender (pay_callbacks env chatId) 3 0 ?tx ?w2")
    have "ns_fresh ?s2 = Some (nonce, False)" using Inr by (simp add: nonce_start_def)
    from retryLoop_passes [OF quiet_pay_callbacks f this, of FEES_WALLET] other
    obtain s3 where s3: "passes FEES_WALLET ?s2 ?w2 w3 s3"
      "(\<exists>t. rp = Inr (Some t)) \<longrightarrow> ns_confirmed s3" by auto
    have p3: "passes FEES_WALLET nonce_start w w3 s3" using passes_trans [OF p2 s3(1)] .
    show ?thesis
    proof (cases rp)
      case (Inl e)
      with run Inr f have "w' = w3"
        by (simp add: pay_transfers_def bind_io_def rateLimitedDelay_def
            provider_getTransactionCount_def request_def Let_def sendTransactionWithRetry_def)
      with p3 show ?thesis by auto
    next
      case (Inr transaction)
      with f have "transaction \<noteq> None"
        using retryLoop_returns_transaction [of 0 3 env sender "pay_callbacks env chatId" ?tx ?w2
            transaction w3] by simp
      with s3(2) Inr have c: "ns_confirmed s3" by auto
      from run \<open>?r1 = Inr nonce\<close> f Inr
      have "pay_after_principal env chatId userId recipientUsername amount fee sender
              recipientWallet transaction w3 = (r, w')"
        by (simp add: pay_transfers_def bind_io_def rateLimitedDelay_def
            provider_getTransactionCount_def request_def Let_def sendTransactionWithRetry_def)
      from pay_after_principal_passes [OF this c]
      obtain s' where "passes FEES_WALLET s3 w3 w' s'" by auto
      from passes_trans [OF p3 this] show ?thesis by auto
    qed
  qed
qed

subsection \<open>The single transaction of the Solana bot\<close>

lemma sol_submissions_append [simp]:
  "sol_submissions (xs @ ys) = sol_submissions xs @ sol_submissions ys"
  by (induction xs rule: sol_submissions.induct) simp_all

lemma sol_submissions_aside: "list_all aside evs \<Longrightarrow> sol_submissions evs = []"
  by (induction evs rule: sol_submissions.induct) simp_all

lemma aside_neutral: "list_all aside evs \<Longrightarrow> list_all neutral evs"
  by (induction evs rule: sol_submissions.induct) simp_all

lemma onlyD:
  assumes "only P m" and "m w = (r, w')"
  obtains evs where "trace w' = trace w @ evs" "list_all P evs"
  using assms unfolding only_def by (metis snd_conv)

lemma only_return [simp]: "only P (return_io x)"
  by (simp add: only_def return_io_def)

lemma only_throw [simp]: "only P (throw_io e)"
  by (simp add: only_def throw_io_def)

lemma only_effect: "P ev \<Longrightarrow> only P (effect r ev)"
  by (simp add: only_def effect_def emit_def split: option.splits)

lemma only_request: "P ev \<Longrightarrow> only P (request r ev)"
  by (simp add: only_def request_def emit_def)

lemma only_bind:
  assumes "only P m" and "\<And>x. only P (f x)"
  shows "only P (bind_io m f)"
  unfolding only_def
proof
  fix w
  obtain r w1 where m: "m w = (r, w1)" by (cases "m w")
  from onlyD [OF assms(1) m] obtain evs1 where e1: "trace w1 = trace w @ evs1" "list_all P evs1" .
  show "\<exists>evs. trace (snd (bind_io m f w)) = trace w @ evs \<and> list_all P evs"
  proof (cases r)
    case (Inl e)
    with m e1 show ?thesis by (auto simp: bind_io_def)
  next
    case (Inr x)
    obtain r2 w2 where f: "f x w1 = (r2, w2)" by (cases "f x w1")
    from onlyD [OF assms(2) f] obtain evs2 where "trace w2 = trace w1 @ evs2" "list_all P evs2" .
    with m e1 Inr f show ?thesis by (auto simp: bind_io_def)
  qed
qed

lemma only_catch:
  assumes "only P m" and "\<And>e. only P (h e)"
  shows "only P (catch_io m h)"
  unfolding only_def
proof
  fix w
  obtain r w1 where m: "m w = (r, w1)" by (cases "m w")
  from onlyD [OF assms(1) m] obtain evs1 where e1: "trace w1 = trace w @ evs1" "list_all P evs1" .
  show "\<exists>evs. trace (snd (catch_io m h w)) = trace w @ evs \<and> list_all P evs"
  proof (cases r)
    case (Inr x)
    with m e1 show ?thesis by (auto simp: catch_io_def)
  next
    case (Inl e)
    obtain r2 w2 where f: "h e w1 = (r2, w2)" by (cases "h e w1")
    from onlyD [OF assms(2) f] obtain evs2 where "trace w2 = trace w1 @ evs2" "list_all P evs2" .
    with m e1 Inl f show ?thesis by (auto simp: catch_io_def)
  qed
qed

lemma only_if: "only P m \<Longrightarrow> only P n \<Longrightarrow> only P (if b then m else n)"
  by simp

lemma only_aside_primitives [simp]:
  "only aside (bot_sendMessage env chatId n)"
  "only aside (bot_deleteMessage env chatId)"
  "only aside (pool_insert env table row)"
  "only aside (saveWallet env k cw)"
  "only aside (connection_getLatestBlockhash env)"
  "only aside (connection_confirmTransaction env signature)"
  "only aside (connection_getSignatureStatus env signature)"
  by (simp_all add: only_def bot_sendMessage_def bot_deleteMessage_def pool_insert_def
      saveWallet_def connection_getLatestBlockhash_def connection_confirmTransaction_def
      connection_getSignatureStatus_def console_error_def effect_def request_def Let_def
      emit_def split: option.splits)

lemma sol_checkTransactionStatus_aside:
  "sol_checkTransactionStatus env signature maxRetries i w = (r, w') \<Longrightarrow>
     \<exists>evs. trace w' = trace w @ evs \<and> list_all aside evs"
proof (induction "maxRetries - i" arbitrary: i w)
  case 0
  then show ?case by (simp add: sol_checkTransactionStatus.simps)
next
  case (Suc n)
  then have lt: "i < maxRetries" by simp
  obtain rq w1 where q: "connection_getSignatureStatus env signature w = (rq, w1)"
    by (cases "connection_getSignatureStatus env signature w")
  from onlyD [OF only_aside_primitives(7) q]
  obtain evs1 where e1: "trace w1 = trace w @ evs1" "list_all aside evs1" .
  have ih: "sol_checkTransactionStatus env signature maxRetries (Suc i) w2 = (r, w') \<Longrightarrow>
      \<exists>evs. trace w' = trace w2 @ evs \<and> list_all aside evs" for w2
    using Suc.hyps(1) [of "Suc i" w2] Suc.hyps(2) by simp
  show ?case
  proof (cases rq)
    case (Inl e)
    with Suc.prems lt q
    have "sol_checkTransactionStatus env signature maxRetries (Suc i)
            (emit (ConsoleError ''Error checking transaction status'') w1) = (r, w')"
      by (subst (asm) sol_checkTransactionStatus.simps) simp
    from ih [OF this] e1 show ?thesis by (auto simp: emit_def)
  next
    case (Inr confirmed)
    show ?thesis
    proof (cases confirmed)
      case True
      with Suc.prems lt q Inr have "w' = w1"
        by (subst (asm) sol_checkTransactionStatus.simps) simp
      with e1 show ?thesis by auto
    next
      case False
      with Suc.prems lt q Inr
      have "sol_checkTransactionStatus env signature maxRetries (Suc i)
              (emit (Sleep 2000) w1) = (r, w')"
        by (subst (asm) sol_checkTransactionStatus.simps) simp
      from ih [OF this] e1 show ?thesis by (auto simp: emit_def)
    qed
  qed
qed

lemma only_aside_sol_checkTransactionStatus [simp]:
  "only aside (sol_checkTransactionStatus env signature maxRetries i)"
  unfolding only_def
proof
  fix w
  show "\<exists>evs. trace (snd (sol_checkTransactionStatus env signature maxRetries i w))
          = trace w @ evs \<and> list_all aside evs"
    using sol_checkTransactionStatus_aside [of env signature maxRetries i w]
    by (cases "sol_checkTransactionStatus env signature maxRetries i w") simp
qed

lemma only_aside_confirmOrRecheck [simp]: "only aside (confirmOrRecheck env signature)"
  unfolding confirmOrRecheck_def
  by (intro only_bind only_catch only_if) simp_all

text \<open>
  The \<^verbatim>\<open>try\<close> block of \<^verbatim>\<open>/tip\<close> asks for no transaction count and submits at most one
  transaction, which carries the tip and the fee together.
\<close>

lemma tip_try_one_transaction:
  assumes "tip_try env chatId fromId targetUsername amount feeAmount sender targetWallet w
             = (r, w')"
  shows "\<exists>evs. trace w' = trace w @ evs \<and> list_all neutral evs
           \<and> (sol_submissions evs = []
               \<or> sol_submissions evs
                    = [[(publicKey targetWallet, amount), (SOL_FEES_WALLET, feeAmount)]])"
proof -
  let ?before = "bind_io (bot_sendMessage env chatId (ProcessingTip amount feeAmount targetUsername))
     (\<lambda>_. bind_io (saveWallet env targetUsername targetWallet)
     (\<lambda>_. connection_getLatestBlockhash env))"
  let ?after = "\<lambda>signature.
     bind_io (confirmOrRecheck env signature) (\<lambda>_.
     bind_io (pool_insert env ''tips''
                \<lparr>from_user_id = fromId, to_username = targetUsername,
                 tip_amount = amount, fee_amount = feeAmount,
                 transaction_signature = signature\<rparr>) (\<lambda>_.
     bind_io (bot_deleteMessage env chatId) (\<lambda>_.
     bot_sendMessage env chatId
       (TipSentSuccessfully amount feeAmount targetUsername signature))))"
  let ?transfers = "[(publicKey targetWallet, amount), (SOL_FEES_WALLET, feeAmount)]"
  have before: "only aside ?before" by (intro only_bind) simp_all
  have after: "only aside (?after signature)" for signature
    by (intro only_bind) simp_all
  have shape: "tip_try env chatId fromId targetUsername amount feeAmount sender targetWallet =
      bind_io ?before (\<lambda>blockhash.
        bind_io (connection_sendTransaction env sender ?transfers) ?after)"
    by (rule ext) (simp add: tip_try_def bind_io_def split: prod.splits sum.splits)
  obtain r1 w1 where b: "?before w = (r1, w1)" by (cases "?before w")
  from onlyD [OF before b]
  obtain evs1 where e1: "trace w1 = trace w @ evs1" "list_all aside evs1" .
  show ?thesis
  proof (cases r1)
    case (Inl e)
    with assms b have "w' = w1" by (simp add: shape bind_io_def)
    with e1 show ?thesis by (auto simp: sol_submissions_aside aside_neutral)
  next
    case (Inr blockhash)
    let ?r2 = "e_solSendTransaction env (now w1)"
    let ?w2 = "emit (SolSendTransaction sender ?transfers ?r2) w1"
    show ?thesis
    proof (cases ?r2)
      case (Inl e)
      with assms b \<open>r1 = Inr blockhash\<close> have "w' = ?w2"
        by (simp add: shape bind_io_def connection_sendTransaction_def request_def Let_def)
      with e1 show ?thesis by (auto simp: sol_submissions_aside aside_neutral emit_def)
    next
      case (Inr signature)
      with assms b \<open>r1 = Inr blockhash\<close> have a: "?after signature ?w2 = (r, w')"
        by (simp add: shape bind_io_def connection_sendTransaction_def request_def Let_def)
      from onlyD [OF after a]
      obtain evs3 where "trace w' = trace ?w2 @ evs3" "list_all aside evs3" .
      with e1 show ?thesis by (auto simp: sol_submissions_aside aside_neutral emit_def)
    qed
  qed
qed

subsection \<open>The order of the tip and the fee\<close>

text \<open>
  Claim C6, amended. In every run of the transfers of the \<^verbatim>\<open>/pay\<close> handler, whatever
  the chain answers, each submission carries the transaction count that the chain
  answered since the previous submission, and every submission of the fee transfer
  carries a count that was asked after the principal transfer had been confirmed.
  In every run of the \<^verbatim>\<open>try\<close> block of \<^verbatim>\<open>/tip\<close> in the Solana bot, no transaction count
  is asked and at most one transaction is submitted, which carries the tip and the fee
  together.
\<close>

theorem tip_and_fee_transfers_ordered:
  "(pay_transfers env chatId userId recipientUsername amount fee sender recipientWallet w
        = (r, w')
      \<and> publicKey recipientWallet \<noteq> FEES_WALLET
    \<longrightarrow> take (length (trace w)) (trace w') = trace w
      \<and> check_events FEES_WALLET nonce_start (drop (length (trace w)) (trace w')) \<noteq> None)
   \<and> (tip_try solEnv solChat fromId targetUsername tip tipFee payer targetWallet v = (q, v')
    \<longrightarrow> take (length (trace v)) (trace v') = trace v
      \<and> list_all neutral (drop (length (trace v)) (trace v'))
      \<and> (sol_submissions (drop (length (trace v)) (trace v')) = []
          \<or> sol_submissions (drop (length (trace v)) (trace v'))
               = [[(publicKey targetWallet, tip), (SOL_FEES_WALLET, tipFee)]]))"
proof (intro conjI impI)
  assume a: "pay_transfers env chatId userId recipientUsername amount fee sender recipientWallet w
        = (r, w') \<and> publicKey recipientWallet \<noteq> FEES_WALLET"
  from pay_transfers_passes [of env chatId userId recipientUsername amount fee sender
      recipientWallet w r w'] a
  show "take (length (trace w)) (trace w') = trace w"
    and "check_events FEES_WALLET nonce_start (drop (length (trace w)) (trace w')) \<noteq> None"
    by (auto simp: passes_def)
next
  assume "tip_try solEnv solChat fromId targetUsername tip tipFee payer targetWallet v = (q, v')"
  from tip_try_one_transaction [OF this]
  obtain evs where evs: "trace v' = trace v @ evs" "list_all neutral evs"
    "sol_submissions evs = []
     \<or> sol_submissions evs = [[(publicKey targetWallet, tip), (SOL_FEES_WALLET, tipFee)]]"
    by blast
  from evs show "take (length (trace v)) (trace v') = trace v" by simp
  from evs show "list_all neutral (drop (length (trace v)) (trace v'))" by simp
  from evs show "sol_submissions (drop (length (trace v)) (trace v')) = []
     \<or> sol_submissions (drop (length (trace v)) (trace v'))
          = [[(publicKey targetWallet, tip), (SOL_FEES_WALLET, tipFee)]]" by simp
qed

text \<open>The check refuses a fee transfer that reuses the nonce of the principal transfer,
  and one whose nonce was asked before the principal transfer was confirmed.\<close>

lemma check_events_refuses_reuse:
  "check_events FEES_WALLET nonce_start
     [GetTransactionCount ''0xa'' (Inr 7),
      SendTransaction ''0xa'' \<lparr>tx_to = ''0xc'', tx_amount = 10, tx_nonce = Some 7\<rparr> (Inr ''0xtip''),
      WaitTransaction ''0xtip'' None,
      SendTransaction ''0xa'' \<lparr>tx_to = FEES_WALLET, tx_amount = 1, tx_nonce = Some 7\<rparr>
        (Inr ''0xfee'')] = None"
  by (simp add: nonce_start_def FEES_WALLET_def)

lemma check_events_refuses_early_query:
  "check_events FEES_WALLET nonce_start
     [GetTransactionCount ''0xa'' (Inr 7),
      SendTransaction ''0xa'' \<lparr>tx_to = ''0xc'', tx_amount = 10, tx_nonce = Some 7\<rparr> (Inr ''0xtip''),
      GetTransactionCount ''0xa'' (Inr 8),
      WaitTransaction ''0xtip'' None,
      SendTransaction ''0xa'' \<lparr>tx_to = FEES_WALLET, tx_amount = 1, tx_nonce = Some 8\<rparr>
        (Inr ''0xfee'')] = None"
  by (simp add: nonce_start_def FEES_WALLET_def)

theorem tip_and_fee_transfers_ordered_witness:
  "publicKey new_claim_wallet \<noteq> FEES_WALLET
   \<and> take (length (trace resolved_world))
        (trace (snd (pay_transfers chain_env 1 ''42'' ''bob'' 10 1 ''0xa'' new_claim_wallet
           resolved_world))) = trace resolved_world
   \<and> check_events FEES_WALLET nonce_start
        (drop (length (trace resolved_world))
           (trace (snd (pay_transfers chain_env 1 ''42'' ''bob'' 10 1 ''0xa'' new_claim_wallet
              resolved_world)))) \<noteq> None
   \<and> filter chain_call
        (trace (snd (pay_transfers chain_env 1 ''42'' ''bob'' 10 1 ''0xa'' new_claim_wallet
           resolved_world))) =
       [GetTransactionCount ''0xa'' (Inr 7),
        SendTransaction ''0xa'' \<lparr>tx_to = ''0xc'', tx_amount = 10, tx_nonce = Some 7\<rparr>
          (Inr ''0xtip''),
        WaitTransaction ''0xtip'' None,
        GetTransactionCount ''0xa'' (Inr 8),
        SendTransaction ''0xa'' \<lparr>tx_to = FEES_WALLET, tx_amount = 1, tx_nonce = Some 8\<rparr>
          (Inr ''0xfee''),
        WaitTransaction ''0xfee'' None]
   \<and> list_all neutral
        (drop (length (trace resolved_world))
           (trace (snd (tip_try example_env 1 ''42'' ''bob'' 10 1 ''0xa'' new_claim_wallet
              resolved_world))))
   \<and> sol_submissions
        (drop (length (trace resolved_world))
           (trace (snd (tip_try example_env 1 ''42'' ''bob'' 10 1 ''0xa'' new_claim_wallet
              resolved_world))))
       = [[(''0xc'', 10), (SOL_FEES_WALLET, 1)]]"
proof -
  have other: "publicKey new_claim_wallet \<noteq> FEES_WALLET"
    by (simp add: new_claim_wallet_def FEES_WALLET_def)
  have calls: "filter chain_call
        (trace (snd (pay_transfers chain_env 1 ''42'' ''bob'' 10 1 ''0xa'' new_claim_wallet
           resolved_world))) =
       [GetTransactionCount ''0xa'' (Inr 7),
        SendTransaction ''0xa'' \<lparr>tx_to = ''0xc'', tx_amount = 10, tx_nonce = Some 7\<rparr>
          (Inr ''0xtip''),
        WaitTransaction ''0xtip'' None,
        GetTransactionCount ''0xa'' (Inr 8),
        SendTransaction ''0xa'' \<lparr>tx_to = FEES_WALLET, tx_amount = 1, tx_nonce = Some 8\<rparr>
          (Inr ''0xfee''),
        WaitTransaction ''0xfee'' None]"
    by code_simp
  have one: "sol_submissions
        (drop (length (trace resolved_world))
           (trace (snd (tip_try example_env 1 ''42'' ''bob'' 10 1 ''0xa'' new_claim_wallet
              resolved_world))))
       = [[(''0xc'', 10), (SOL_FEES_WALLET, 1)]]"
    by code_simp
  from tip_and_fee_transfers_ordered [where env = chain_env and chatId = 1 and userId = "''42''"
      and recipientUsername = "''bob''" and amount = 10 and fee = 1 and sender = "''0xa''"
      and recipientWallet = new_claim_wallet and w = resolved_world
      and solEnv = example_env and solChat = 1 and fromId = "''42''"
      and targetUsername = "''bob''" and tip = 10 and tipFee = 1 and payer = "''0xa''"
      and targetWallet = new_claim_wallet and v = resolved_world
      and r = "fst (pay_transfers chain_env 1 ''42'' ''bob'' 10 1 ''0xa'' new_claim_wallet
                 resolved_world)"
      and w' = "snd (pay_transfers chain_env 1 ''42'' ''bob'' 10 1 ''0xa'' new_claim_wallet
                 resolved_world)"
      and q = "fst (tip_try example_env 1 ''42'' ''bob'' 10 1 ''0xa'' new_claim_wallet
                 resolved_world)"
      and v' = "snd (tip_try example_env 1 ''42'' ''bob'' 10 1 ''0xa'' new_claim_wallet
                 resolved_world)"]
    other calls one
  show ?thesis by simp
qed

text \<open>
  Claim C6, as stated, fails on the \<^verbatim>\<open>/tip\<close> handler of the Solana bot: the tip and the
  fee are the two instructions of one transaction, submitted once; no transaction
  count is asked, and nothing is confirmed between the two transfers.
\<close>

theorem tip_is_one_transaction:
  "filter chain_call
     (trace (snd (tip_handler example_env 1 ''42'' ''bob'' (Some 10) example_world))) =
     [SolGetBalance ''0xa'' (Inr 100),
      SolGetLatestBlockhash (Inr ''blockhash''),
      SolSendTransaction ''0xa'' [(''0xc'', 10), (SOL_FEES_WALLET, 1)] (Inr ''sig''),
      SolConfirmTransaction ''sig'' (Inr False)]"
  by code_simp

end
